theory Spec2Isabelle
  imports Complex_Main "HOL-Library.Sublist"
begin

section \<open>Python values, exceptions and the object store\<close>

text \<open>
  The development embeds \<^verbatim>\<open>enthought/mayavi/core/base.py\<close> (class \<^verbatim>\<open>Base\<close>) and
  \<^verbatim>\<open>enthought/mayavi/tools/figure.py\<close>. Objects live in a store indexed by
  addresses; a method takes the address of \<^verbatim>\<open>self\<close> and the store, and gives back
  the outcome (a returned value or a raised exception) together with the store as the
  call left it, so that what an \<^verbatim>\<open>except\<close> clause resumes with is the store
  mutated so far.
\<close>

type_synonym addr = nat

datatype error = AttributeError | NotImplementedError | OtherError string

datatype 'a result = Return 'a | Raise error

type_synonym colour = "real \<times> real \<times> real"

text \<open>The attributes of a \<^verbatim>\<open>TVTKScene\<close> that the code writes.\<close>

record tvtk_scene =
  background :: colour
  foreground :: colour
  disable_render :: bool

text \<open>
  The traits of \<^verbatim>\<open>Base\<close> (base.py lines 62-118), without the menu and icon
  plumbing. \<^verbatim>\<open>parent\<close> is a weak reference or \<^verbatim>\<open>None\<close>. \<^verbatim>\<open>Base\<close> declares
  no \<^verbatim>\<open>children\<close> trait of its own, it only reads \<^verbatim>\<open>self.children\<close>: the field
  is \<open>None\<close> when the attribute is absent (reading it raises
  \<^verbatim>\<open>AttributeError\<close>) and \<open>Some cs\<close> for a node whose class declares the list.
\<close>

record node =
  scene :: "tvtk_scene option"
  name :: string
  node_type :: string
  visible :: bool
  parent :: "addr option"
  is_running :: bool
  saved_state :: string
  children :: "addr list option"

text \<open>
  What the code makes happen outside the store: a state handed to
  \<^verbatim>\<open>__set_pure_state__\<close> or \<^verbatim>\<open>state_pickler.set_state\<close> (recorded with the value
  \<^verbatim>\<open>self.running\<close> has at the call), a \<^verbatim>\<open>trait_property_changed('running', old, new)\<close>
  notification, and a \<^verbatim>\<open>render()\<close> of the node's scene.
\<close>

datatype 'st event =
    StateApplied addr bool 'st
  | RunningChanged addr bool bool
  | Rendered addr

text \<open>
  The store: the objects, the class name of each (fixed at allocation), the next free
  address, the trace of events, and the mlab engine's \<^verbatim>\<open>scenes\<close> and
  \<^verbatim>\<open>current_scene\<close>.
\<close>

record 'st world =
  heap :: "addr \<Rightarrow> node"
  class_of :: "addr \<Rightarrow> string"
  next_addr :: addr
  events :: "'st event list"
  scenes :: "addr list"
  current_scene :: "addr option"

text \<open>
  The collaborators that are not part of the two files: the traits constructor, the
  state pickler, \<^verbatim>\<open>cPickle\<close>, the method a subclass may define or override, and for
  figure.py the engine, the camera and the preferences. They are parameters of the
  model; a call that touches an object works on that object's attributes only.
\<close>

record 'st env =
  init :: "node \<Rightarrow> unit result \<times> node"
  loads_state :: "string \<Rightarrow> 'st result"
  update_state :: "'st \<Rightarrow> 'st result"
  cPickle_dumps :: "'st \<Rightarrow> string result"
  cPickle_loads :: "string \<Rightarrow> 'st result"
  get_state :: "node \<Rightarrow> 'st result"
  set_state :: "node \<Rightarrow> 'st \<Rightarrow> unit result \<times> node"
  set_pure_state :: "string \<Rightarrow> (node \<Rightarrow> 'st \<Rightarrow> unit result \<times> node) option"
  remove_child :: "addr \<Rightarrow> addr \<Rightarrow> 'st world \<Rightarrow> unit result \<times> 'st world"
  get_engine :: "'st world \<Rightarrow> unit result \<times> 'st world"
  new_scene :: "'st world \<Rightarrow> unit result \<times> 'st world"
  view :: "int \<Rightarrow> int \<Rightarrow> 'st world \<Rightarrow> unit result \<times> 'st world"
  background_color :: colour
  foreground_color :: colour

text \<open>Sequencing: a raised exception skips the rest and keeps the store.\<close>

definition bindE ::
  "('s \<Rightarrow> 'a result \<times> 's) \<Rightarrow> ('a \<Rightarrow> 's \<Rightarrow> 'b result \<times> 's) \<Rightarrow> 's \<Rightarrow> 'b result \<times> 's" where
  "bindE m f s = (case m s of (Return x, s') \<Rightarrow> f x s' | (Raise e, s') \<Rightarrow> (Raise e, s'))"

text \<open>A call that reads only: its outcome, the store unchanged.\<close>

definition lift :: "'a result \<Rightarrow> 's \<Rightarrow> 'a result \<times> 's" where
  "lift r s = (r, s)"

text \<open>A call of a collaborator on the attributes of the object at \<open>a\<close>.\<close>

definition on_node ::
  "addr \<Rightarrow> (node \<Rightarrow> unit result \<times> node) \<Rightarrow> 'st world \<Rightarrow> unit result \<times> 'st world" where
  "on_node a f w = (case f (heap w a) of (r, n') \<Rightarrow> (r, w\<lparr>heap := (heap w)(a := n')\<rparr>))"

text \<open>An attribute assignment on the object at \<open>a\<close>.\<close>

definition assign :: "addr \<Rightarrow> (node \<Rightarrow> node) \<Rightarrow> 'st world \<Rightarrow> 'st world" where
  "assign a f w = w\<lparr>heap := (heap w)(a := f (heap w a))\<rparr>"

section \<open>base.py: the class Base\<close>

text \<open>The trait defaults of a new instance (lines 67-118).\<close>

definition Base_defaults :: node where
  "Base_defaults =
     \<lparr>scene = None, name = [], node_type = [], visible = True, parent = None,
      is_running = False, saved_state = [], children = None\<rparr>"

text \<open>
  \<^verbatim>\<open>cls()\<close>: a new object of class \<open>c\<close> with the trait defaults, then the
  constructor \<^verbatim>\<open>__init__()\<close>.
\<close>

definition new_instance :: "'st env \<Rightarrow> string \<Rightarrow> 'st world \<Rightarrow> addr result \<times> 'st world" where
  "new_instance env c w =
     (let b = next_addr w;
          w1 = w\<lparr>heap := (heap w)(b := Base_defaults),
                 class_of := (class_of w)(b := c),
                 next_addr := Suc b\<rparr>
      in bindE (on_node b (init env)) (\<lambda>_. lift (Return b)) w1)"

text \<open>\<^verbatim>\<open>_get_running\<close> and \<^verbatim>\<open>_set_running\<close> (lines 302-311).\<close>

definition get_running :: "addr \<Rightarrow> 'st world \<Rightarrow> bool" where
  "get_running a w = is_running (heap w a)"

definition set_running :: "addr \<Rightarrow> bool \<Rightarrow> 'st world \<Rightarrow> 'st world" where
  "set_running a new w =
     (if is_running (heap w a) = new then w
      else (let old = is_running (heap w a);
                w1 = assign a (\<lambda>n. n\<lparr>is_running := new\<rparr>) w
            in w1\<lparr>events := events w1 @ [RunningChanged a old new]\<rparr>))"

text \<open>
  The call in \<^verbatim>\<open>_load_saved_state\<close> that applies a state (lines 354-357):
  \<^verbatim>\<open>__set_pure_state__\<close> when the object's class has one, else
  \<^verbatim>\<open>state_pickler.set_state\<close>.
\<close>

definition state_setter :: "'st env \<Rightarrow> string \<Rightarrow> node \<Rightarrow> 'st \<Rightarrow> unit result \<times> node" where
  "state_setter env c =
     (case set_pure_state env c of Some f \<Rightarrow> f | None \<Rightarrow> set_state env)"

definition apply_state :: "'st env \<Rightarrow> addr \<Rightarrow> 'st \<Rightarrow> 'st world \<Rightarrow> unit result \<times> 'st world" where
  "apply_state env a state w =
     on_node a (\<lambda>n. state_setter env (class_of w a) n state)
       (w\<lparr>events := events w @ [StateApplied a (get_running a w) state]\<rparr>)"

text \<open>\<^verbatim>\<open>_load_saved_state\<close> (lines 348-358).\<close>

definition load_saved_state :: "'st env \<Rightarrow> addr \<Rightarrow> 'st world \<Rightarrow> unit result \<times> 'st world" where
  "load_saved_state env a w =
     (let saved = saved_state (heap w a) in
      if length saved > 0 then
        bindE (lift (cPickle_loads env saved)) (\<lambda>state.
        bindE (apply_state env a state) (\<lambda>_ w'.
          (Return (), assign a (\<lambda>n. n\<lparr>saved_state := []\<rparr>) w'))) w
      else (Return (), w))"

text \<open>\<^verbatim>\<open>__setstate__\<close> (lines 140-150).\<close>

definition setstate :: "'st env \<Rightarrow> addr \<Rightarrow> string \<Rightarrow> 'st world \<Rightarrow> unit result \<times> 'st world" where
  "setstate env a str_state =
     bindE (on_node a (init env)) (\<lambda>_.
     bindE (lift (loads_state env str_state)) (\<lambda>state0.
     bindE (lift (update_state env state0)) (\<lambda>state.
     bindE (lift (cPickle_dumps env state)) (\<lambda>blob w.
       (let w1 = assign a (\<lambda>n. n\<lparr>saved_state := blob\<rparr>) w in
        if get_running a w1 then load_saved_state env a w1 else (Return (), w1))))))"

text \<open>\<^verbatim>\<open>__deepcopy__\<close> (lines 152-169); the result is the address of the new object.\<close>

definition deepcopy :: "'st env \<Rightarrow> addr \<Rightarrow> 'st world \<Rightarrow> addr result \<times> 'st world" where
  "deepcopy env a w0 =
     bindE (new_instance env (class_of w0 a)) (\<lambda>new.
     bindE (\<lambda>w. (let saved = saved_state (heap w a) in
                 if length saved = 0 then
                   bindE (lift (get_state env (heap w a))) (\<lambda>state.
                     lift (cPickle_dumps env state)) w
                 else (Return saved, w))) (\<lambda>saved w.
       (let w1 = assign new (\<lambda>n. n\<lparr>saved_state := saved\<rparr>) w in
        bindE (\<lambda>w. if get_running new w then load_saved_state env new w else (Return (), w))
          (\<lambda>_. lift (Return new)) w1))) w0"

text \<open>\<^verbatim>\<open>start\<close> and \<^verbatim>\<open>stop\<close> (lines 174-184).\<close>

definition start :: "'st env \<Rightarrow> addr \<Rightarrow> 'st world \<Rightarrow> unit result \<times> 'st world" where
  "start env a w = load_saved_state env a (set_running a True w)"

definition stop :: "addr \<Rightarrow> 'st world \<Rightarrow> unit result \<times> 'st world" where
  "stop a w = (Return (), set_running a False w)"

text \<open>\<^verbatim>\<open>add_child\<close> and \<^verbatim>\<open>remove_child\<close> as \<^verbatim>\<open>Base\<close> defines them (lines 186-195).\<close>

definition Base_add_child :: "addr \<Rightarrow> addr \<Rightarrow> 'st world \<Rightarrow> unit result \<times> 'st world" where
  "Base_add_child a child w = (Raise NotImplementedError, w)"

definition Base_remove_child :: "addr \<Rightarrow> addr \<Rightarrow> 'st world \<Rightarrow> unit result \<times> 'st world" where
  "Base_remove_child a child w = (Raise NotImplementedError, w)"

text \<open>
  \<^verbatim>\<open>remove\<close> (lines 197-201). \<^verbatim>\<open>self.parent.remove_child(self)\<close> is the method of
  the parent's class, \<open>remove_child env\<close>.
\<close>

definition remove :: "'st env \<Rightarrow> addr \<Rightarrow> 'st world \<Rightarrow> unit result \<times> 'st world" where
  "remove env a w =
     (case parent (heap w a) of
        None \<Rightarrow> (Return (), w)
      | Some p \<Rightarrow> remove_child env p a w)"

text \<open>\<^verbatim>\<open>render\<close> (lines 203-209).\<close>

definition render :: "addr \<Rightarrow> 'st world \<Rightarrow> unit result \<times> 'st world" where
  "render a w =
     (case scene (heap w a) of
        None \<Rightarrow> (Return (), w)
      | Some s \<Rightarrow> (Return (), w\<lparr>events := events w @ [Rendered a]\<rparr>))"

text \<open>\<^verbatim>\<open>tno_get_label\<close> (lines 258-263).\<close>

definition tno_get_label :: "addr \<Rightarrow> 'st world \<Rightarrow> string result \<times> 'st world" where
  "tno_get_label a w =
     (let w1 = (if name (heap w a) = [] then assign a (\<lambda>n. n\<lparr>name := class_of w a\<rparr>) w else w)
      in (Return (name (heap w1 a)), w1))"

text \<open>\<^verbatim>\<open>_get_children_ui_list\<close> (lines 313-318).\<close>

definition get_children_ui_list :: "addr \<Rightarrow> 'st world \<Rightarrow> addr list result \<times> 'st world" where
  "get_children_ui_list a w =
     (case children (heap w a) of
        None \<Rightarrow> (Raise AttributeError, w)
      | Some cs \<Rightarrow> (Return cs, w))"

text \<open>
  Python's \<^verbatim>\<open>sub in s\<close> and \<^verbatim>\<open>s.replace(old, new)\<close> on strings: \<^verbatim>\<open>replace\<close>
  rewrites the occurrences of \<open>old\<close> found from left to right without overlap; for
  an empty \<open>old\<close> it puts \<open>new\<close> before every character and at the end.
\<close>

fun str_contains :: "string \<Rightarrow> string \<Rightarrow> bool" where
  "str_contains [] sub = (sub = [])"
| "str_contains (c # cs) sub = (prefix sub (c # cs) \<or> str_contains cs sub)"

function replace_from :: "string \<Rightarrow> string \<Rightarrow> string \<Rightarrow> string" where
  "replace_from [] old new = []"
| "replace_from (c # cs) old new =
     (if old \<noteq> [] \<and> prefix old (c # cs)
      then new @ replace_from (drop (length old) (c # cs)) old new
      else c # replace_from cs old new)"
  by pat_completeness auto
termination
  by (relation "measure (\<lambda>(s, old, new). length s)") auto

definition str_replace :: "string \<Rightarrow> string \<Rightarrow> string \<Rightarrow> string" where
  "str_replace s old new =
     (if old = [] then new @ concat (map (\<lambda>c. c # new) s) else replace_from s old new)"

definition hidden_marker :: string where
  "hidden_marker = '' [Hidden]''"

text \<open>\<^verbatim>\<open>_visible_changed\<close> (lines 326-340).\<close>

definition visible_changed :: "addr \<Rightarrow> bool \<Rightarrow> 'st world \<Rightarrow> 'st world" where
  "visible_changed a val w =
     (let w1 = (if length (name (heap w a)) = 0 then snd (tno_get_label a w) else w) in
      if val then assign a (\<lambda>x. x\<lparr>name := str_replace (name x) hidden_marker []\<rparr>) w1
      else (let n = name (heap w1 a) in
            if \<not> str_contains n hidden_marker
            then assign a (\<lambda>x. x\<lparr>name := n @ hidden_marker\<rparr>) w1
            else w1))"

text \<open>
  An assignment \<^verbatim>\<open>self.visible = v\<close>: the trait machinery calls
  \<^verbatim>\<open>_visible_changed\<close> with the new value when the value changes.
\<close>

definition set_visible :: "addr \<Rightarrow> bool \<Rightarrow> 'st world \<Rightarrow> 'st world" where
  "set_visible a v w =
     (if visible (heap w a) = v then w
      else visible_changed a v (assign a (\<lambda>n. n\<lparr>visible := v\<rparr>) w))"

text \<open>\<^verbatim>\<open>_hideshow\<close> (lines 342-346).\<close>

definition hideshow :: "addr \<Rightarrow> 'st world \<Rightarrow> 'st world" where
  "hideshow a w = (if visible (heap w a) then set_visible a False w else set_visible a True w)"

text \<open>
  The operations embedded above that a client or the tree editor invokes on a node:
  the methods of the sections \<^verbatim>\<open>object interface\<close>, \<^verbatim>\<open>Base interface\<close> and
  \<^verbatim>\<open>TreeNodeObject interface\<close>, the menu action \<^verbatim>\<open>_hideshow\<close> and the assignments
  to the public traits \<^verbatim>\<open>visible\<close> and \<^verbatim>\<open>running\<close> (the latter is the property
  setter \<^verbatim>\<open>_set_running\<close>). The methods left out (views, icons, menus,
  \<^verbatim>\<open>tno_delete_child\<close>) write neither \<^verbatim>\<open>_is_running\<close> nor \<^verbatim>\<open>_saved_state\<close>.
\<close>

datatype operation =
    SetState addr string
  | DeepCopy addr
  | Start addr
  | Stop addr
  | Remove addr
  | Render addr
  | TnoGetLabel addr
  | HideShow addr
  | SetVisible addr bool
  | SetRunning addr bool

fun exec :: "'st env \<Rightarrow> operation \<Rightarrow> 'st world \<Rightarrow> unit result \<times> 'st world" where
  "exec env (SetState a s) w = setstate env a s w"
| "exec env (DeepCopy a) w = bindE (deepcopy env a) (\<lambda>_. lift (Return ())) w"
| "exec env (Start a) w = start env a w"
| "exec env (Stop a) w = stop a w"
| "exec env (Remove a) w = remove env a w"
| "exec env (Render a) w = render a w"
| "exec env (TnoGetLabel a) w = bindE (tno_get_label a) (\<lambda>_. lift (Return ())) w"
| "exec env (HideShow a) w = (Return (), hideshow a w)"
| "exec env (SetVisible a v) w = (Return (), set_visible a v w)"
| "exec env (SetRunning a v) w = (Return (), set_running a v w)"

text \<open>A sequence of operations; it ends at the first one that raises.\<close>

fun exec_all :: "'st env \<Rightarrow> operation list \<Rightarrow> 'st world \<Rightarrow> unit result \<times> 'st world" where
  "exec_all env [] w = (Return (), w)"
| "exec_all env (operation # ops) w = bindE (exec env operation) (\<lambda>_. exec_all env ops) w"

section \<open>figure.py\<close>

text \<open>The \<^verbatim>\<open>name\<close> argument of \<^verbatim>\<open>figure\<close>: \<^verbatim>\<open>None\<close>, an \<^verbatim>\<open>int\<close> or a string.\<close>

datatype fig_name = NoName | IntName int | StrName string

text \<open>\<^verbatim>\<open>'%d' % i\<close>.\<close>

function show_nat :: "nat \<Rightarrow> string" where
  "show_nat n =
     (if n < 10 then [''0123456789'' ! n]
      else show_nat (n div 10) @ [''0123456789'' ! (n mod 10)])"
  by pat_completeness auto
termination
  by (relation "measure id") auto

definition show_int :: "int \<Rightarrow> string" where
  "show_int i = (if i < 0 then CHR ''-'' # show_nat (nat (- i)) else show_nat (nat i))"

text \<open>The \<^verbatim>\<open>for scene in engine.scenes\<close> loop of \<^verbatim>\<open>figure\<close>: the first scene of that name.\<close>

fun find_scene :: "(addr \<Rightarrow> node) \<Rightarrow> string \<Rightarrow> addr list \<Rightarrow> addr option" where
  "find_scene h nm [] = None"
| "find_scene h nm (s # ss) = (if name (h s) = nm then Some s else find_scene h nm ss)"

text \<open>
  \<^verbatim>\<open>obj.scene.attr = v\<close> for the object at \<open>a\<close>: on \<^verbatim>\<open>None\<close> the assignment raises
  \<^verbatim>\<open>AttributeError\<close>.
\<close>

definition set_tvtk ::
  "addr \<Rightarrow> (tvtk_scene \<Rightarrow> tvtk_scene) \<Rightarrow> 'st world \<Rightarrow> unit result \<times> 'st world" where
  "set_tvtk a f w =
     (case scene (heap w a) of
        None \<Rightarrow> (Raise AttributeError, w)
      | Some t \<Rightarrow> (Return (), assign a (\<lambda>n. n\<lparr>scene := Some (f t)\<rparr>) w))"

text \<open>An attribute access on a reference that may be \<^verbatim>\<open>None\<close>.\<close>

definition deref ::
  "addr option \<Rightarrow> (addr \<Rightarrow> 's \<Rightarrow> 'a result \<times> 's) \<Rightarrow> 's \<Rightarrow> 'a result \<times> 's" where
  "deref r f w = (case r of None \<Rightarrow> (Raise AttributeError, w) | Some a \<Rightarrow> f a w)"

text \<open>\<^verbatim>\<open>figure\<close> (lines 27-65); the result is \<^verbatim>\<open>fig\<close>, a reference or \<^verbatim>\<open>None\<close>.\<close>

definition figure ::
  "'st env \<Rightarrow> fig_name \<Rightarrow> colour option \<Rightarrow> colour option \<Rightarrow> 'st world
     \<Rightarrow> addr option result \<times> 'st world" where
  "figure env nm bg fg =
     bindE (get_engine env) (\<lambda>_.
     bindE (\<lambda>w.
        (let nm' = (case nm of
                      IntName i \<Rightarrow> Some (''TVTK Scene '' @ show_int i)
                    | StrName s \<Rightarrow> Some s
                    | NoName \<Rightarrow> None)
         in case nm' of
              Some s \<Rightarrow>
                (case find_scene (heap w) s (scenes w) of
                   Some sc \<Rightarrow> (Return (), w\<lparr>current_scene := Some sc\<rparr>)
                 | None \<Rightarrow>
                     bindE (new_scene env) (\<lambda>_ w'.
                       deref (current_scene w')
                         (\<lambda>c w''. (Return (), assign c (\<lambda>n. n\<lparr>name := s\<rparr>) w'')) w') w)
            | None \<Rightarrow> new_scene env w)) (\<lambda>_.
     bindE (view env 40 50) (\<lambda>_ w.
        (let fig = current_scene w;
             background = (case bg of None \<Rightarrow> background_color env | Some c \<Rightarrow> c);
             foreground = (case fg of None \<Rightarrow> foreground_color env | Some c \<Rightarrow> c)
         in bindE (deref fig (\<lambda>f. set_tvtk f (\<lambda>t. t\<lparr>tvtk_scene.background := background\<rparr>))) (\<lambda>_.
            bindE (deref fig (\<lambda>f. set_tvtk f (\<lambda>t. t\<lparr>tvtk_scene.foreground := foreground\<rparr>))) (\<lambda>_.
            lift (Return fig))) w))))"

text \<open>\<^verbatim>\<open>gcf\<close> (lines 67-74).\<close>

definition gcf :: "'st env \<Rightarrow> 'st world \<Rightarrow> addr option result \<times> 'st world" where
  "gcf env =
     bindE (get_engine env) (\<lambda>_ w.
       (case current_scene w of
          None \<Rightarrow> figure env NoName None None w
        | Some sc \<Rightarrow> (Return (Some sc), w)))"

text \<open>
  \<^verbatim>\<open>scene.children[:] = []\<close>; the notifications the trait list sends to its
  listeners are outside the model.
\<close>

definition clear_children :: "addr \<Rightarrow> 'st world \<Rightarrow> unit result \<times> 'st world" where
  "clear_children a w =
     (case children (heap w a) of
        None \<Rightarrow> (Raise AttributeError, w)
      | Some cs \<Rightarrow> (Return (), assign a (\<lambda>n. n\<lparr>children := Some []\<rparr>) w))"

text \<open>\<^verbatim>\<open>clf\<close> (lines 76-85): the body of the \<^verbatim>\<open>try\<close>, then the handler.\<close>

definition clf_try :: "'st env \<Rightarrow> 'st world \<Rightarrow> unit result \<times> 'st world" where
  "clf_try env =
     bindE (gcf env) (\<lambda>sc.
     bindE (deref sc (\<lambda>a. set_tvtk a (\<lambda>t. t\<lparr>disable_render := True\<rparr>))) (\<lambda>_.
     bindE (deref sc clear_children) (\<lambda>_.
     deref sc (\<lambda>a. set_tvtk a (\<lambda>t. t\<lparr>disable_render := False\<rparr>)))))"

definition clf :: "'st env \<Rightarrow> 'st world \<Rightarrow> unit result \<times> 'st world" where
  "clf env w =
     (case clf_try env w of
        (Raise AttributeError, w') \<Rightarrow> (Return (), w')
      | r \<Rightarrow> r)"

section \<open>A concrete environment\<close>

text \<open>
  An instance of the collaborators, used to run the model on concrete inputs: states are
  strings, the pickle of a state is the state behind a one-character header, applying a
  state writes it to \<^verbatim>\<open>name\<close>, and \<^verbatim>\<open>new_scene\<close> allocates a scene with an empty
  children list and makes it current.
\<close>

definition example_env :: "string env" where
  "example_env =
     \<lparr>init = (\<lambda>n. (Return (), n)),
      loads_state = Return,
      update_state = Return,
      cPickle_dumps = (\<lambda>st. Return (CHR ''P'' # st)),
      cPickle_loads =
        (\<lambda>b. case b of [] \<Rightarrow> Raise (OtherError ''EOFError'') | c # st \<Rightarrow> Return st),
      get_state = (\<lambda>n. Return (name n)),
      set_state = (\<lambda>n st. (Return (), n\<lparr>name := st\<rparr>)),
      set_pure_state = (\<lambda>c. None),
      remove_child = Base_remove_child,
      get_engine = (\<lambda>w. (Return (), w)),
      new_scene = (\<lambda>w. (Return (),
         w\<lparr>heap := (heap w)(next_addr w :=
                Base_defaults\<lparr>scene := Some \<lparr>background = (0, 0, 0), foreground = (1, 1, 1),
                                              disable_render = False\<rparr>,
                               children := Some []\<rparr>),
           class_of := (class_of w)(next_addr w := ''Scene''),
           next_addr := Suc (next_addr w),
           scenes := scenes w @ [next_addr w],
           current_scene := Some (next_addr w)\<rparr>)),
      view = (\<lambda>azimuth elevation w. (Return (), w)),
      background_color = (1 / 2, 1 / 2, 1 / 2),
      foreground_color = (0, 0, 0)\<rparr>"

definition empty_world :: "string world" where
  "empty_world =
     \<lparr>heap = (\<lambda>a. Base_defaults), class_of = (\<lambda>a. ''Base''), next_addr = 0, events = [],
      scenes = [], current_scene = None\<rparr>"

definition scene_world :: "string world" where
  "scene_world =
     \<lparr>heap = (\<lambda>a. Base_defaults)(0 :=
        \<lparr>scene = Some \<lparr>background = (0, 0, 0), foreground = (1, 1, 1), disable_render = False\<rparr>,
         name = ''TVTK Scene 1'', node_type = [], visible = True, parent = None,
         is_running = False, saved_state = [], children = Some [1, 2]\<rparr>),
      class_of = (\<lambda>a. ''Base'')(0 := ''Scene''), next_addr = 3, events = [],
      scenes = [0], current_scene = Some 0\<rparr>"

text \<open>
  The environment of a class whose constructor starts the node, an environment in
  which applying a state fails, and a store whose scene has no children list.
\<close>

definition starting_env :: "string env" where
  "starting_env = example_env\<lparr>init := (\<lambda>n. (Return (), n\<lparr>is_running := True\<rparr>))\<rparr>"

definition failing_env :: "string env" where
  "failing_env = example_env\<lparr>set_state := (\<lambda>n st. (Raise (OtherError ''ValueError''), n))\<rparr>"

definition childless_world :: "string world" where
  "childless_world =
     \<lparr>heap = (\<lambda>a. Base_defaults)(0 :=
        \<lparr>scene = Some \<lparr>background = (0, 0, 0), foreground = (1, 1, 1), disable_render = False\<rparr>,
         name = ''TVTK Scene 1'', node_type = [], visible = True, parent = None,
         is_running = False, saved_state = [], children = None\<rparr>),
      class_of = (\<lambda>a. ''Base''), next_addr = 1, events = [],
      scenes = [0], current_scene = Some 0\<rparr>"

section \<open>Predicates on traces, stores and strings\<close>

text \<open>An event that is no application of a state to a node that is not running.\<close>

definition applied_while_running :: "'st event \<Rightarrow> bool" where
  "applied_while_running e =
     (case e of
        StateApplied a r st \<Rightarrow> r
      | RunningChanged a old new \<Rightarrow> True
      | Rendered a \<Rightarrow> True)"

text \<open>A call that only appends such events to the trace, whatever its outcome.\<close>

definition extends_running :: "('st world \<Rightarrow> 'a result \<times> 'st world) \<Rightarrow> bool" where
  "extends_running m =
     (\<forall>w. \<exists>evs. events (snd (m w)) = events w @ evs \<and> list_all applied_while_running evs)"

text \<open>Every running node has an empty \<^verbatim>\<open>_saved_state\<close>.\<close>

definition no_pending_state :: "'st world \<Rightarrow> bool" where
  "no_pending_state w = (\<forall>b. is_running (heap w b) \<longrightarrow> saved_state (heap w b) = [])"

text \<open>A string no proper non-empty prefix of which is also its suffix.\<close>

definition borderless :: "string \<Rightarrow> bool" where
  "borderless p = (\<forall>k. 0 < k \<and> k < length p \<longrightarrow> take k p \<noteq> drop (length p - k) p)"

section \<open>Sequencing and the trace\<close>

lemma bindE_ReturnE:
  assumes "bindE m f s = (Return r, s')"
  obtains x s1 where "m s = (Return x, s1)" "f x s1 = (Return r, s')"
  using assms by (auto simp: bindE_def split: prod.splits result.splits)

lemma set_running_sets: "is_running (heap (set_running a b w) a) = b"
  by (simp add: set_running_def assign_def Let_def)

lemma set_running_other: "b \<noteq> a \<Longrightarrow> heap (set_running a v w) b = heap w b"
  by (simp add: set_running_def assign_def Let_def)

lemma extends_runningD:
  "extends_running m \<Longrightarrow>
     \<exists>evs. events (snd (m w)) = events w @ evs \<and> list_all applied_while_running evs"
  by (simp add: extends_running_def)

lemma extends_bindE:
  assumes "extends_running m" "\<And>x. extends_running (f x)"
  shows "extends_running (bindE m f)"
  unfolding extends_running_def
proof
  fix w
  from assms(1) obtain e1 where e1: "events (snd (m w)) = events w @ e1"
    "list_all applied_while_running e1" unfolding extends_running_def by blast
  show "\<exists>evs. events (snd (bindE m f w)) = events w @ evs \<and> list_all applied_while_running evs"
  proof (cases "m w")
    case (Pair r w')
    show ?thesis
    proof (cases r)
      case (Return x)
      from assms(2)[of x] obtain e2 where "events (snd (f x w')) = events w' @ e2"
        "list_all applied_while_running e2" unfolding extends_running_def by blast
      with e1 Pair Return show ?thesis by (simp add: bindE_def)
    next
      case (Raise e)
      with e1 Pair show ?thesis by (simp add: bindE_def)
    qed
  qed
qed

lemma extends_lift: "extends_running (lift r)"
  by (simp add: extends_running_def lift_def)

lemma extends_on_node: "extends_running (on_node a f)"
  by (simp add: extends_running_def on_node_def split: prod.splits)

lemma extends_after:
  assumes m: "extends_running m"
    and g: "\<And>w. \<exists>pre. events (g w) = events w @ pre \<and> list_all applied_while_running pre"
  shows "extends_running (\<lambda>w. m (g w))"
  unfolding extends_running_def
proof
  fix w
  from g[of w] obtain pre where pre: "events (g w) = events w @ pre"
    "list_all applied_while_running pre" by blast
  from extends_runningD[OF m, of "g w"] obtain evs where
    evs: "events (snd (m (g w))) = events (g w) @ evs" "list_all applied_while_running evs"
    by blast
  from pre evs have "events (snd (m (g w))) = events w @ (pre @ evs)
      \<and> list_all applied_while_running (pre @ evs)" by simp
  then show "\<exists>evs. events (snd (m (g w))) = events w @ evs \<and> list_all applied_while_running evs"
    by blast
qed

lemma extends_after_assign:
  assumes "extends_running m"
  shows "extends_running (\<lambda>w. m (assign a f w))"
  by (rule extends_after[OF assms]) (simp add: assign_def)

lemma load_saved_state_events:
  "events (snd (load_saved_state env a w)) = events w
   \<or> (\<exists>st. events (snd (load_saved_state env a w))
              = events w @ [StateApplied a (get_running a w) st])"
  by (auto simp: load_saved_state_def bindE_def lift_def apply_state_def on_node_def
        assign_def Let_def split: result.splits prod.splits)

lemma extends_guarded_load:
  "extends_running (\<lambda>w. if get_running a w then load_saved_state env a w else (Return (), w))"
  unfolding extends_running_def
proof
  fix w
  show "\<exists>evs. events (snd (if get_running a w then load_saved_state env a w else (Return (), w)))
           = events w @ evs \<and> list_all applied_while_running evs"
    using load_saved_state_events[of env a w]
    by (auto simp: applied_while_running_def)
qed

lemma extends_setstate: "extends_running (setstate env a s)"
  unfolding setstate_def Let_def
  by (intro extends_bindE extends_lift extends_on_node
        extends_after_assign[OF extends_guarded_load])

lemma extends_start: "extends_running (start env a)"
proof -
  have pre: "\<exists>pre. events (set_running a True w) = events w @ pre
       \<and> list_all applied_while_running pre" for w :: "'a world"
    by (simp add: set_running_def assign_def Let_def applied_while_running_def)
  have eq: "start env a = (\<lambda>w. load_saved_state env a (set_running a True w))"
    by (rule ext) (simp add: start_def)
  from extends_after[OF extends_guarded_load[of a env], of "set_running a True", OF pre]
  show ?thesis
    by (simp add: eq get_running_def set_running_sets)
qed

lemma new_instance_events: "events (snd (new_instance env c w)) = events w"
  by (simp add: new_instance_def bindE_def on_node_def lift_def Let_def
      split: prod.splits result.splits)

lemma extends_new_instance: "extends_running (new_instance env c)"
  by (simp add: extends_running_def new_instance_events)

lemma extends_deepcopy: "extends_running (deepcopy env a)"
  unfolding extends_running_def
proof
  fix w0 :: "'a world"
  have 1: "extends_running (\<lambda>w. let saved = saved_state (heap w a) in
                 if length saved = 0 then
                   bindE (lift (get_state env (heap w a))) (\<lambda>state.
                     lift (cPickle_dumps env state)) w
                 else (Return saved, w))"
    by (simp add: extends_running_def bindE_def lift_def Let_def split: result.splits)
  have 2: "extends_running (\<lambda>w.
        bindE (\<lambda>w. if get_running new w then load_saved_state env new w else (Return (), w))
          (\<lambda>_. lift (Return new)) (assign new f w))" for new f
    by (intro extends_after_assign extends_bindE extends_guarded_load extends_lift)
  have "extends_running (bindE (new_instance env (class_of w0 a)) (\<lambda>new.
     bindE (\<lambda>w. (let saved = saved_state (heap w a) in
                 if length saved = 0 then
                   bindE (lift (get_state env (heap w a))) (\<lambda>state.
                     lift (cPickle_dumps env state)) w
                 else (Return saved, w))) (\<lambda>saved w.
       (let w1 = assign new (\<lambda>n. n\<lparr>saved_state := saved\<rparr>) w in
        bindE (\<lambda>w. if get_running new w then load_saved_state env new w else (Return (), w))
          (\<lambda>_. lift (Return new)) w1))))"
    unfolding Let_def[of "assign _ _ _"]
    by (intro extends_bindE extends_new_instance 1 2)
  from extends_runningD[OF this, of w0]
  show "\<exists>evs. events (snd (deepcopy env a w0)) = events w0 @ evs
          \<and> list_all applied_while_running evs"
    by (simp add: deepcopy_def)
qed

section \<open>The saved state is applied to running nodes only\<close>

text \<open>
  C1. In \<^verbatim>\<open>__setstate__\<close>, \<^verbatim>\<open>__deepcopy__\<close> and \<^verbatim>\<open>start\<close> the saved state is
  applied only while the node is running: whatever the collaborators do and however the
  call ends, the trace grows by events among which every application of a state (by
  \<^verbatim>\<open>__set_pure_state__\<close> or \<^verbatim>\<open>state_pickler.set_state\<close>) was made with
  \<^verbatim>\<open>self.running\<close> true.
\<close>

theorem state_applied_only_while_running:
  "(\<exists>evs. events (snd (setstate env a s w)) = events w @ evs
          \<and> list_all applied_while_running evs)
 \<and> (\<exists>evs. events (snd (deepcopy env a w)) = events w @ evs
          \<and> list_all applied_while_running evs)
 \<and> (\<exists>evs. events (snd (start env a w)) = events w @ evs
          \<and> list_all applied_while_running evs)"
  using extends_runningD[OF extends_setstate] extends_runningD[OF extends_deepcopy]
    extends_runningD[OF extends_start]
  by blast

theorem state_applied_only_while_running_witness:
  "events (snd (setstate example_env 0 ''abc'' (set_running 0 True empty_world)))
     = [RunningChanged 0 False True, StateApplied 0 True ''abc'']
   \<and> events (snd (setstate example_env 0 ''abc'' empty_world)) = []
   \<and> (\<exists>evs. events (snd (setstate example_env 0 ''abc'' (set_running 0 True empty_world)))
              = events (set_running 0 True empty_world) @ evs
            \<and> list_all applied_while_running evs)"
proof -
  have "events (snd (setstate example_env 0 ''abc'' (set_running 0 True empty_world)))
     = [RunningChanged 0 False True, StateApplied 0 True ''abc'']"
    by (simp add: setstate_def bindE_def lift_def on_node_def assign_def get_running_def
        load_saved_state_def apply_state_def state_setter_def set_running_def
        example_env_def empty_world_def Base_defaults_def)
  moreover have "events (snd (setstate example_env 0 ''abc'' empty_world)) = []"
    by (simp add: setstate_def bindE_def lift_def on_node_def assign_def get_running_def
        example_env_def empty_world_def Base_defaults_def)
  ultimately show ?thesis
    using state_applied_only_while_running
      [of example_env 0 "''abc''" "set_running 0 True empty_world"]
    by blast
qed

section \<open>Deferred application of the state\<close>



section \<open>Start and stop\<close>

lemma load_saved_state_running:
  assumes "\<forall>c n st. is_running (snd (state_setter env c n st)) = is_running n"
  shows "is_running (heap (snd (load_saved_state env a w)) a) = is_running (heap w a)"
proof -
  have fr: "\<And>c n st r n'. state_setter env c n st = (r, n') \<Longrightarrow> is_running n' = is_running n"
    using assms by (metis snd_conv)
  show ?thesis
    by (auto simp: load_saved_state_def bindE_def lift_def apply_state_def on_node_def
        assign_def Let_def split: result.splits prod.splits dest: fr)
qed

lemma example_init_frame:
  "\<forall>n. is_running (snd (init example_env n)) = is_running n
     \<and> saved_state (snd (init example_env n)) = saved_state n"
  by (simp add: example_env_def)

lemma example_setter_frame:
  "\<forall>c n st. is_running (snd (state_setter example_env c n st)) = is_running n"
  by (simp add: example_env_def state_setter_def)

text \<open>
  C3. A newly constructed node is not running and has an empty saved state; after
  \<^verbatim>\<open>start()\<close> the node is running, after \<^verbatim>\<open>stop()\<close> it is not, and \<^verbatim>\<open>stop()\<close>
  returns normally. The two collaborators that work on the node in between are taken
  as they are meant: the traits constructor assigns no trait without a keyword argument,
  and the state that is applied does not carry \<^verbatim>\<open>_is_running\<close>
  (\<^verbatim>\<open>__get_pure_state__\<close> removes it).
\<close>

theorem start_stop_lifecycle:
  assumes init_frame: "\<forall>n. is_running (snd (init env n)) = is_running n
                         \<and> saved_state (snd (init env n)) = saved_state n"
    and setter_frame: "\<forall>c n st. is_running (snd (state_setter env c n st)) = is_running n"
  shows "\<not> get_running (next_addr w) (snd (new_instance env c w))
       \<and> saved_state (heap (snd (new_instance env c w)) (next_addr w)) = []
       \<and> get_running a (snd (start env a w))
       \<and> \<not> get_running a (snd (stop a w))
       \<and> fst (stop a w) = Return ()"
proof -
  have "is_running (snd (init env Base_defaults)) = False"
       "saved_state (snd (init env Base_defaults)) = []"
    using init_frame by (simp_all add: Base_defaults_def)
  then have new: "\<not> get_running (next_addr w) (snd (new_instance env c w))"
       "saved_state (heap (snd (new_instance env c w)) (next_addr w)) = []"
    by (auto simp: new_instance_def get_running_def bindE_def on_node_def lift_def Let_def
        split: prod.splits result.splits)
  have "get_running a (snd (start env a w))"
    unfolding start_def get_running_def
    using load_saved_state_running[OF setter_frame] by (simp add: set_running_sets)
  moreover have "\<not> get_running a (snd (stop a w))" "fst (stop a w) = Return ()"
    by (simp_all add: stop_def get_running_def set_running_sets)
  ultimately show ?thesis using new by simp
qed

theorem start_stop_lifecycle_witness:
  "(\<forall>n. is_running (snd (init example_env n)) = is_running n
       \<and> saved_state (snd (init example_env n)) = saved_state n)
   \<and> (\<forall>c n st. is_running (snd (state_setter example_env c n st)) = is_running n)
   \<and> \<not> get_running 0 (snd (new_instance example_env ''Base'' empty_world))
   \<and> saved_state (heap (snd (new_instance example_env ''Base'' empty_world)) 0) = []
   \<and> get_running 0 (snd (start example_env 0 empty_world))
   \<and> \<not> get_running 0 (snd (stop 0 empty_world))
   \<and> fst (stop 0 (empty_world :: string world)) = Return ()"
  using start_stop_lifecycle[OF example_init_frame example_setter_frame, of empty_world "''Base''" 0]
    example_init_frame example_setter_frame
  by (simp add: empty_world_def)

section \<open>Deep copies\<close>

text \<open>
  C4, as the code has it. \<^verbatim>\<open>copy.deepcopy(x)\<close> returns a new object of the class of
  \<^verbatim>\<open>x\<close>, and every object that was there before, \<^verbatim>\<open>x\<close> among them, is as it was.
  The state saved for the copy is the \<^verbatim>\<open>_saved_state\<close> of \<^verbatim>\<open>x\<close> when that is not
  empty, and otherwise the pickle of \<^verbatim>\<open>state_pickler.get_state(x)\<close>. When the
  constructor leaves the new object not running (as the trait default of
  \<^verbatim>\<open>_is_running\<close> does), the copy is not running, that state is its
  \<^verbatim>\<open>_saved_state\<close> and nothing is applied. When the constructor leaves the new object
  running, the state is applied to the copy at once and its \<^verbatim>\<open>_saved_state\<close> is
  empty. The constructor and the serializer are taken to succeed when they are called.
\<close>

theorem deepcopy_saves_state:
  assumes allocated: "a < next_addr w"
    and init_ok: "init env Base_defaults = (Return (), n0)"
    and state_ok: "saved_state (heap w a) = [] \<longrightarrow>
                     get_state env (heap w a) = Return st \<and> cPickle_dumps env st = Return blob"
    and saved: "saved = (if saved_state (heap w a) \<noteq> [] then saved_state (heap w a) else blob)"
    and load_ok: "is_running n0 \<and> saved \<noteq> [] \<longrightarrow>
                    cPickle_loads env saved = Return st'
                    \<and> state_setter env (class_of w a) (n0\<lparr>saved_state := saved\<rparr>) st'
                        = (Return (), n1)"
  shows "\<exists>w'. deepcopy env a w = (Return (next_addr w), w')
      \<and> class_of w' (next_addr w) = class_of w a
      \<and> (\<forall>b. b < next_addr w \<longrightarrow> heap w' b = heap w b \<and> class_of w' b = class_of w b)
      \<and> next_addr w' = Suc (next_addr w)
      \<and> (\<not> is_running n0 \<longrightarrow>
            \<not> get_running (next_addr w) w'
          \<and> saved_state (heap w' (next_addr w)) = saved
          \<and> heap w' (next_addr w) = n0\<lparr>saved_state := saved\<rparr>
          \<and> events w' = events w)
      \<and> (is_running n0 \<and> saved \<noteq> [] \<longrightarrow>
            heap w' (next_addr w) = n1\<lparr>saved_state := []\<rparr>
          \<and> events w' = events w @ [StateApplied (next_addr w) True st'])
      \<and> (is_running n0 \<and> saved = [] \<longrightarrow>
            heap w' (next_addr w) = n0\<lparr>saved_state := []\<rparr>
          \<and> events w' = events w)"
proof -
  let ?b = "next_addr w"
  let ?w1 = "w\<lparr>heap := (heap w)(?b := n0), class_of := (class_of w)(?b := class_of w a),
               next_addr := Suc ?b\<rparr>"
  have ne: "a \<noteq> ?b" using allocated by simp
  have ni: "new_instance env (class_of w a) w = (Return ?b, ?w1)"
    using init_ok by (simp add: new_instance_def bindE_def lift_def on_node_def Let_def)
  have r1: "bindE (new_instance env (class_of w a)) f w = f ?b ?w1" for f :: "addr \<Rightarrow> _"
    by (simp only: bindE_def ni prod.case result.case)
  have sv: "(let saved = saved_state (heap ?w1 a) in
              if length saved = 0 then
                bindE (lift (get_state env (heap ?w1 a))) (\<lambda>state.
                  lift (cPickle_dumps env state)) ?w1
              else (Return saved, ?w1)) = (Return saved, ?w1)"
    using ne state_ok saved by (auto simp: Let_def bindE_def lift_def)
  have r2: "bindE (\<lambda>w. (let saved = saved_state (heap w a) in
                 if length saved = 0 then
                   bindE (lift (get_state env (heap w a))) (\<lambda>state.
                     lift (cPickle_dumps env state)) w
                 else (Return saved, w))) f ?w1 = f saved ?w1" for f :: "string \<Rightarrow> _"
    unfolding bindE_def[of "\<lambda>w. (let saved = saved_state (heap w a) in _ w saved)"]
    by (simp only: sv prod.case result.case)
  let ?w2 = "assign ?b (\<lambda>n. n\<lparr>saved_state := saved\<rparr>) ?w1"
  have dc: "deepcopy env a w =
      bindE (\<lambda>w. if get_running ?b w then load_saved_state env ?b w else (Return (), w))
          (\<lambda>_. lift (Return ?b)) ?w2"
    by (simp only: deepcopy_def r1 r2) (simp only: Let_def)
  have w2: "heap ?w2 ?b = n0\<lparr>saved_state := saved\<rparr>" "class_of ?w2 ?b = class_of w a"
    "events ?w2 = events w" "next_addr ?w2 = Suc ?b"
    "\<forall>b. b < ?b \<longrightarrow> heap ?w2 b = heap w b \<and> class_of ?w2 b = class_of w b"
    by (simp_all add: assign_def)
  show ?thesis
  proof (cases "is_running n0")
    case False
    then have "deepcopy env a w = (Return ?b, ?w2)"
      unfolding dc by (simp add: bindE_def lift_def get_running_def assign_def)
    with False w2 show ?thesis by (simp add: get_running_def)
  next
    case True
    show ?thesis
    proof (cases "saved = []")
      case e: True
      with True have "deepcopy env a w = (Return ?b, ?w2)"
        unfolding dc
        by (simp add: bindE_def lift_def get_running_def assign_def load_saved_state_def)
      with True e w2 show ?thesis by simp
    next
      case ne': False
      with True load_ok have l: "cPickle_loads env saved = Return st'"
        "state_setter env (class_of w a) (n0\<lparr>saved_state := saved\<rparr>) st' = (Return (), n1)"
        by simp_all
      let ?w3 = "w\<lparr>heap := (heap w)(?b := n1\<lparr>saved_state := []\<rparr>),
                   class_of := (class_of w)(?b := class_of w a),
                   next_addr := Suc ?b,
                   events := events w @ [StateApplied ?b True st']\<rparr>"
      from True ne' l have "deepcopy env a w = (Return ?b, ?w3)"
        unfolding dc
        by (simp add: bindE_def lift_def get_running_def assign_def load_saved_state_def
            apply_state_def on_node_def)
      with True ne' show ?thesis by simp
    qed
  qed
qed

theorem deepcopy_saves_state_witness:
  "(0::nat) < next_addr scene_world
   \<and> saved_state (heap scene_world 0) = []
   \<and> get_state example_env (heap scene_world 0) = Return ''TVTK Scene 1''
   \<and> (\<exists>w'. deepcopy example_env 0 scene_world = (Return 3, w')
          \<and> class_of w' 3 = ''Scene''
          \<and> \<not> get_running 3 w'
          \<and> saved_state (heap w' 3) = ''PTVTK Scene 1''
          \<and> heap w' 0 = heap scene_world 0
          \<and> events w' = [])
   \<and> (\<exists>w'. deepcopy starting_env 0 scene_world = (Return 3, w')
          \<and> class_of w' 3 = ''Scene''
          \<and> heap w' 3 = Base_defaults\<lparr>is_running := True, name := ''TVTK Scene 1''\<rparr>
          \<and> heap w' 0 = heap scene_world 0
          \<and> events w' = [StateApplied 3 True ''TVTK Scene 1''])"
proof -
  have h1: "0 < next_addr scene_world" by (simp add: scene_world_def)
  have s: "saved_state (heap scene_world 0) = []"
    "get_state example_env (heap scene_world 0) = Return ''TVTK Scene 1''"
    "next_addr scene_world = 3" "class_of scene_world 0 = ''Scene''" "events scene_world = []"
    by (simp_all add: example_env_def scene_world_def)
  have sv: "''PTVTK Scene 1'' = (if saved_state (heap scene_world 0) \<noteq> []
      then saved_state (heap scene_world 0) else ''PTVTK Scene 1'')"
    using s by simp
  have a2: "init example_env Base_defaults = (Return (), Base_defaults)"
    by (simp add: example_env_def)
  have a3: "saved_state (heap scene_world 0) = [] \<longrightarrow>
      get_state example_env (heap scene_world 0) = Return ''TVTK Scene 1''
      \<and> cPickle_dumps example_env ''TVTK Scene 1'' = Return ''PTVTK Scene 1''"
    by (simp add: example_env_def scene_world_def)
  have a5: "is_running Base_defaults \<and> ''PTVTK Scene 1'' \<noteq> [] \<longrightarrow>
      cPickle_loads example_env ''PTVTK Scene 1'' = Return ''TVTK Scene 1''
      \<and> state_setter example_env (class_of scene_world 0)
           (Base_defaults\<lparr>saved_state := ''PTVTK Scene 1''\<rparr>) ''TVTK Scene 1''
          = (Return (), Base_defaults\<lparr>saved_state := ''PTVTK Scene 1'', name := ''TVTK Scene 1''\<rparr>)"
    by (simp add: example_env_def state_setter_def)
  have nr: "\<not> is_running Base_defaults" by (simp add: Base_defaults_def)
  from deepcopy_saves_state[OF h1 a2 a3 sv a5] nr s
  have r1: "\<exists>w'. deepcopy example_env 0 scene_world = (Return 3, w')
          \<and> class_of w' 3 = ''Scene''
          \<and> \<not> get_running 3 w'
          \<and> saved_state (heap w' 3) = ''PTVTK Scene 1''
          \<and> heap w' 0 = heap scene_world 0
          \<and> events w' = []"
    by auto
  let ?n0 = "Base_defaults\<lparr>is_running := True\<rparr>"
  have b2: "init starting_env Base_defaults = (Return (), ?n0)"
    by (simp add: starting_env_def)
  have b3: "saved_state (heap scene_world 0) = [] \<longrightarrow>
      get_state starting_env (heap scene_world 0) = Return ''TVTK Scene 1''
      \<and> cPickle_dumps starting_env ''TVTK Scene 1'' = Return ''PTVTK Scene 1''"
    by (simp add: starting_env_def example_env_def scene_world_def)
  have b5: "is_running ?n0 \<and> ''PTVTK Scene 1'' \<noteq> [] \<longrightarrow>
      cPickle_loads starting_env ''PTVTK Scene 1'' = Return ''TVTK Scene 1''
      \<and> state_setter starting_env (class_of scene_world 0)
           (?n0\<lparr>saved_state := ''PTVTK Scene 1''\<rparr>) ''TVTK Scene 1''
          = (Return (), ?n0\<lparr>saved_state := ''PTVTK Scene 1'', name := ''TVTK Scene 1''\<rparr>)"
    by (simp add: starting_env_def example_env_def state_setter_def)
  have eq: "?n0\<lparr>saved_state := ''PTVTK Scene 1'', name := ''TVTK Scene 1'', saved_state := []\<rparr>
      = Base_defaults\<lparr>is_running := True, name := ''TVTK Scene 1''\<rparr>"
    by (simp add: Base_defaults_def)
  from deepcopy_saves_state[OF h1 b2 b3 sv b5] s eq
  have r2: "\<exists>w'. deepcopy starting_env 0 scene_world = (Return 3, w')
          \<and> class_of w' 3 = ''Scene''
          \<and> heap w' 3 = Base_defaults\<lparr>is_running := True, name := ''TVTK Scene 1''\<rparr>
          \<and> heap w' 0 = heap scene_world 0
          \<and> events w' = [StateApplied 3 True ''TVTK Scene 1'']"
    by auto
  from h1 s r1 r2 show ?thesis by simp
qed

text \<open>
  The claim as it was stated (the copy is not running and carries the saved state, for
  every node) fails for a class whose constructor starts the node, the case
  \<^verbatim>\<open>__deepcopy__\<close> provides for in lines 165-168: the copy is running and its
  \<^verbatim>\<open>_saved_state\<close> is empty.
\<close>

theorem deepcopy_running_counterexample:
  "fst (deepcopy starting_env 0 scene_world) = Return 3
   \<and> get_running 3 (snd (deepcopy starting_env 0 scene_world))
   \<and> saved_state (heap scene_world 0) = []
   \<and> saved_state (heap (snd (deepcopy starting_env 0 scene_world)) 3) = []
   \<and> get_state starting_env (heap scene_world 0) = Return ''TVTK Scene 1''
   \<and> cPickle_dumps starting_env ''TVTK Scene 1'' = Return ''PTVTK Scene 1''"
  by (simp add: deepcopy_def new_instance_def bindE_def lift_def on_node_def assign_def
      get_running_def load_saved_state_def apply_state_def state_setter_def Let_def
      starting_env_def example_env_def scene_world_def Base_defaults_def)

section \<open>The attributes of a node and its children list\<close>

text \<open>
  C5, as the code has it. A new node has a name (empty), a visibility flag (true), a
  running flag (false), a parent reference (\<^verbatim>\<open>None\<close>) and a saved state (empty), but
  no children list: \<^verbatim>\<open>Base\<close> declares none, a node has one only when its class
  declares it. On a node that has a children list, \<^verbatim>\<open>children_ui_list\<close> returns
  exactly that list, nothing added, and changes nothing; on a node without one, a new
  \<^verbatim>\<open>Base\<close> instance among them, it raises \<^verbatim>\<open>AttributeError\<close>. The constructor is
  taken to assign no trait.
\<close>

theorem children_ui_list_is_children:
  assumes init_ok: "init env Base_defaults = (Return (), Base_defaults)"
  shows "(\<exists>w'. new_instance env c w = (Return (next_addr w), w')
           \<and> name (heap w' (next_addr w)) = []
           \<and> visible (heap w' (next_addr w))
           \<and> \<not> get_running (next_addr w) w'
           \<and> parent (heap w' (next_addr w)) = None
           \<and> saved_state (heap w' (next_addr w)) = []
           \<and> children (heap w' (next_addr w)) = None
           \<and> get_children_ui_list (next_addr w) w' = (Raise AttributeError, w'))
       \<and> (\<forall>cs. children (heap w a) = Some cs \<longrightarrow> get_children_ui_list a w = (Return cs, w))
       \<and> (children (heap w a) = None \<longrightarrow> get_children_ui_list a w = (Raise AttributeError, w))
       \<and> (\<forall>cs. get_children_ui_list a (assign a (\<lambda>n. n\<lparr>children := Some cs\<rparr>) w)
                = (Return cs, assign a (\<lambda>n. n\<lparr>children := Some cs\<rparr>) w))"
proof -
  have "new_instance env c w = (Return (next_addr w),
      w\<lparr>heap := (heap w)(next_addr w := Base_defaults),
        class_of := (class_of w)(next_addr w := c), next_addr := Suc (next_addr w)\<rparr>)"
    using init_ok by (simp add: new_instance_def bindE_def lift_def on_node_def Let_def)
  then have "\<exists>w'. new_instance env c w = (Return (next_addr w), w')
           \<and> name (heap w' (next_addr w)) = []
           \<and> visible (heap w' (next_addr w))
           \<and> \<not> get_running (next_addr w) w'
           \<and> parent (heap w' (next_addr w)) = None
           \<and> saved_state (heap w' (next_addr w)) = []
           \<and> children (heap w' (next_addr w)) = None
           \<and> get_children_ui_list (next_addr w) w' = (Raise AttributeError, w')"
    by (simp add: Base_defaults_def get_running_def get_children_ui_list_def)
  moreover have "\<forall>cs. children (heap w a) = Some cs
      \<longrightarrow> get_children_ui_list a w = (Return cs, w)"
    by (simp add: get_children_ui_list_def)
  moreover have "children (heap w a) = None
      \<longrightarrow> get_children_ui_list a w = (Raise AttributeError, w)"
    by (simp add: get_children_ui_list_def)
  moreover have "\<forall>cs. get_children_ui_list a (assign a (\<lambda>n. n\<lparr>children := Some cs\<rparr>) w)
                = (Return cs, assign a (\<lambda>n. n\<lparr>children := Some cs\<rparr>) w)"
    by (simp add: get_children_ui_list_def assign_def)
  ultimately show ?thesis by blast
qed

theorem children_ui_list_is_children_witness:
  "init example_env Base_defaults = (Return (), Base_defaults)
   \<and> children (heap scene_world 0) = Some [1, 2]
   \<and> get_children_ui_list 0 scene_world = (Return [1, 2], scene_world)
   \<and> children (heap scene_world 1) = None
   \<and> get_children_ui_list 1 scene_world = (Raise AttributeError, scene_world)"
proof -
  have i: "init example_env Base_defaults = (Return (), Base_defaults)"
    by (simp add: example_env_def)
  have c: "children (heap scene_world 0) = Some [1, 2]" "children (heap scene_world 1) = None"
    by (simp_all add: scene_world_def Base_defaults_def)
  from children_ui_list_is_children[OF i, of _ scene_world 0]
    children_ui_list_is_children[OF i, of _ scene_world 1] c i
  show ?thesis by simp
qed

text \<open>
  The claim as it was stated (every node has a children list, which
  \<^verbatim>\<open>children_ui_list\<close> returns) fails on a new \<^verbatim>\<open>Base\<close> instance: it has no
  \<^verbatim>\<open>children\<close> attribute and the property raises \<^verbatim>\<open>AttributeError\<close>.
\<close>

theorem children_ui_list_counterexample:
  "fst (new_instance example_env ''Base'' empty_world) = Return 0
   \<and> children (heap (snd (new_instance example_env ''Base'' empty_world)) 0) = None
   \<and> fst (get_children_ui_list 0 (snd (new_instance example_env ''Base'' empty_world)))
       = Raise AttributeError"
  by (simp add: new_instance_def bindE_def lift_def on_node_def Let_def
      get_children_ui_list_def example_env_def empty_world_def Base_defaults_def)

section \<open>Removal from the pipeline\<close>

text \<open>
  C10. \<^verbatim>\<open>remove()\<close> on a node whose parent is \<^verbatim>\<open>None\<close> returns normally and leaves
  the store as it was; on a node with a parent it is the call
  \<^verbatim>\<open>parent.remove_child(self)\<close>, outcome and store.
\<close>

theorem remove_delegates_to_parent:
  "(parent (heap w a) = None \<longrightarrow> remove env a w = (Return (), w))
 \<and> (\<forall>p. parent (heap w a) = Some p \<longrightarrow> remove env a w = remove_child env p a w)"
  by (simp add: remove_def)

theorem remove_delegates_to_parent_witness:
  "parent (heap scene_world 0) = None
   \<and> remove example_env 0 scene_world = (Return (), scene_world)
   \<and> parent (heap (assign 1 (parent_update (\<lambda>_. Some 0)) scene_world) 1) = Some 0
   \<and> remove example_env 1 (assign 1 (parent_update (\<lambda>_. Some 0)) scene_world)
       = (Raise NotImplementedError, assign 1 (parent_update (\<lambda>_. Some 0)) scene_world)"
proof -
  have p0: "parent (heap scene_world 0) = None" by (simp add: scene_world_def)
  have p1: "parent (heap (assign 1 (parent_update (\<lambda>_. Some 0)) scene_world) 1) = Some 0"
    by (simp add: assign_def)
  have rc: "remove_child example_env 0 1 (assign 1 (parent_update (\<lambda>_. Some 0)) scene_world)
      = (Raise NotImplementedError, assign 1 (parent_update (\<lambda>_. Some 0)) scene_world)"
    by (simp add: example_env_def Base_remove_child_def)
  from remove_delegates_to_parent[of scene_world 0 example_env]
    remove_delegates_to_parent[of "assign 1 (parent_update (\<lambda>_. Some 0)) scene_world" 1 example_env]
    p0 p1 rc
  show ?thesis by simp
qed

section \<open>The saved state is loaded once\<close>

lemma load_saved_state_post:
  assumes "load_saved_state env a w = (Return (), w')"
  shows "saved_state (heap w' a) = [] \<and> (\<forall>b. b \<noteq> a \<longrightarrow> heap w' b = heap w b)"
  using assms
  by (auto simp: load_saved_state_def bindE_def lift_def apply_state_def on_node_def
        assign_def Let_def split: result.splits prod.splits if_splits)

lemma load_keeps_invariant:
  assumes "load_saved_state env a w = (Return (), w')"
    and "\<forall>b. b \<noteq> a \<longrightarrow> is_running (heap w b) \<longrightarrow> saved_state (heap w b) = []"
  shows "no_pending_state w'"
  using load_saved_state_post[OF assms(1)] assms(2)
  unfolding no_pending_state_def by metis

lemma guarded_load_keeps_invariant:
  assumes "(if get_running a w then load_saved_state env a w else (Return (), w)) = (Return (), w')"
    and "\<forall>b. b \<noteq> a \<longrightarrow> is_running (heap w b) \<longrightarrow> saved_state (heap w b) = []"
  shows "no_pending_state w'"
proof (cases "get_running a w")
  case True
  with assms(1) have "load_saved_state env a w = (Return (), w')" by simp
  from load_keeps_invariant[OF this assms(2)] show ?thesis .
next
  case False
  with assms show ?thesis by (auto simp: no_pending_state_def get_running_def)
qed

lemma start_keeps_invariant:
  assumes "no_pending_state w" "start env a w = (Return (), w')"
  shows "no_pending_state w'"
  using assms(2) unfolding start_def
  by (rule load_keeps_invariant)
     (use assms(1) in \<open>simp add: no_pending_state_def set_running_other\<close>)

lemma stop_keeps_invariant:
  assumes "no_pending_state w" "stop a w = (Return (), w')"
  shows "no_pending_state w'"
  using assms
  by (auto simp: no_pending_state_def stop_def set_running_def assign_def Let_def
      split: if_splits)

lemma setstate_keeps_invariant:
  assumes inv: "no_pending_state w" and ret: "setstate env a s w = (Return (), w')"
  shows "no_pending_state w'"
proof -
  from ret obtain n0 blob where
    g: "(if get_running a (assign a (\<lambda>n. n\<lparr>saved_state := blob\<rparr>) (w\<lparr>heap := (heap w)(a := n0)\<rparr>))
         then load_saved_state env a
                (assign a (\<lambda>n. n\<lparr>saved_state := blob\<rparr>) (w\<lparr>heap := (heap w)(a := n0)\<rparr>))
         else (Return (),
               assign a (\<lambda>n. n\<lparr>saved_state := blob\<rparr>) (w\<lparr>heap := (heap w)(a := n0)\<rparr>)))
        = (Return (), w')"
    by (auto simp: setstate_def bindE_def lift_def on_node_def Let_def
        split: prod.splits result.splits)
  show ?thesis
    by (rule guarded_load_keeps_invariant[OF g])
       (use inv in \<open>simp add: no_pending_state_def assign_def\<close>)
qed

lemma new_instance_ReturnD:
  assumes "new_instance env c w = (Return b, w1)"
  shows "b = next_addr w \<and> (\<forall>x. x \<noteq> next_addr w \<longrightarrow> heap w1 x = heap w x)"
  using assms
  by (auto simp: new_instance_def bindE_def lift_def on_node_def Let_def
      split: prod.splits result.splits)

lemma deepcopy_keeps_invariant:
  assumes inv: "no_pending_state w" and ret: "deepcopy env a w = (Return r, w')"
  shows "no_pending_state w'"
proof -
  from ret[unfolded deepcopy_def] obtain new w1 where
    ni: "new_instance env (class_of w a) w = (Return new, w1)"
    and rest: "bindE (\<lambda>w. (let saved = saved_state (heap w a) in
                 if length saved = 0 then
                   bindE (lift (get_state env (heap w a))) (\<lambda>state.
                     lift (cPickle_dumps env state)) w
                 else (Return saved, w))) (\<lambda>saved w.
       (let w1 = assign new (\<lambda>n. n\<lparr>saved_state := saved\<rparr>) w in
        bindE (\<lambda>w. if get_running new w then load_saved_state env new w else (Return (), w))
          (\<lambda>_. lift (Return new)) w1)) w1 = (Return r, w')"
    by (rule bindE_ReturnE)
  from rest obtain saved w2 where
    sv: "(let saved = saved_state (heap w1 a) in
                 if length saved = 0 then
                   bindE (lift (get_state env (heap w1 a))) (\<lambda>state.
                     lift (cPickle_dumps env state)) w1
                 else (Return saved, w1)) = (Return saved, w2)"
    and rest2: "(let w1 = assign new (\<lambda>n. n\<lparr>saved_state := saved\<rparr>) w2 in
        bindE (\<lambda>w. if get_running new w then load_saved_state env new w else (Return (), w))
          (\<lambda>_. lift (Return new)) w1) = (Return r, w')"
    by (rule bindE_ReturnE)
  from sv have w2: "w2 = w1"
    by (auto simp: Let_def bindE_def lift_def split: if_splits result.splits)
  let ?w3 = "assign new (\<lambda>n. n\<lparr>saved_state := saved\<rparr>) w1"
  from rest2 w2 obtain u where
    g: "(if get_running new ?w3 then load_saved_state env new ?w3 else (Return (), ?w3))
          = (Return u, w')"
    unfolding Let_def by (elim bindE_ReturnE) (auto simp: lift_def)
  from new_instance_ReturnD[OF ni] inv
  have "\<forall>b. b \<noteq> new \<longrightarrow> is_running (heap ?w3 b) \<longrightarrow> saved_state (heap ?w3 b) = []"
    by (simp add: no_pending_state_def assign_def)
  with g show ?thesis by (auto intro: guarded_load_keeps_invariant)
qed

lemma tno_get_label_keeps_invariant:
  "no_pending_state w \<Longrightarrow> no_pending_state (snd (tno_get_label a w))"
  by (simp add: tno_get_label_def Let_def no_pending_state_def assign_def)

lemma visible_changed_keeps_invariant:
  "no_pending_state w \<Longrightarrow> no_pending_state (visible_changed a v w)"
  by (simp add: visible_changed_def Let_def no_pending_state_def assign_def tno_get_label_def)

lemma set_visible_keeps_invariant:
  "no_pending_state w \<Longrightarrow> no_pending_state (set_visible a v w)"
proof -
  assume inv: "no_pending_state w"
  then have "no_pending_state (assign a (\<lambda>n. n\<lparr>visible := v\<rparr>) w)"
    by (simp add: no_pending_state_def assign_def)
  then have "no_pending_state (visible_changed a v (assign a (\<lambda>n. n\<lparr>visible := v\<rparr>) w))"
    by (rule visible_changed_keeps_invariant)
  with inv show ?thesis by (simp add: set_visible_def)
qed

lemma hideshow_keeps_invariant:
  "no_pending_state w \<Longrightarrow> no_pending_state (hideshow a w)"
  by (simp add: hideshow_def set_visible_keeps_invariant)

lemma start_again:
  assumes "no_pending_state w" "is_running (heap w a)"
  shows "start env a w = (Return (), w)"
  using assms
  by (simp add: no_pending_state_def start_def set_running_def load_saved_state_def)

lemma set_running_False_keeps_invariant:
  "no_pending_state w \<Longrightarrow> no_pending_state (set_running a False w)"
  by (auto simp: no_pending_state_def set_running_def assign_def Let_def)

lemma exec_keeps_invariant:
  assumes inv: "no_pending_state w"
    and parent_method:
      "\<forall>p c w0. no_pending_state w0 \<longrightarrow> no_pending_state (snd (remove_child env p c w0))"
    and no_direct: "\<forall>a. operation \<noteq> SetRunning a True"
    and completes: "exec env operation w = (Return (), w')"
  shows "no_pending_state w'"
proof (cases operation)
  case (SetState a s)
  with completes inv show ?thesis by (auto intro: setstate_keeps_invariant)
next
  case (DeepCopy a)
  with completes obtain r where "deepcopy env a w = (Return r, w')"
    by (auto simp: bindE_def lift_def split: prod.splits result.splits)
  with inv show ?thesis by (rule deepcopy_keeps_invariant)
next
  case (Start a)
  with completes inv show ?thesis by (auto intro: start_keeps_invariant)
next
  case (Stop a)
  with completes inv show ?thesis by (auto intro: stop_keeps_invariant)
next
  case (Remove a)
  show ?thesis
  proof (cases "parent (heap w a)")
    case None
    with Remove completes inv show ?thesis by (simp add: remove_def)
  next
    case (Some p)
    with Remove completes have "w' = snd (remove_child env p a w)" by (simp add: remove_def)
    with inv parent_method show ?thesis by simp
  qed
next
  case (Render a)
  with completes inv show ?thesis
    by (auto simp: render_def no_pending_state_def split: option.splits)
next
  case (TnoGetLabel a)
  with completes have "w' = snd (tno_get_label a w)"
    by (auto simp: bindE_def lift_def split: prod.splits result.splits)
  with inv show ?thesis by (simp add: tno_get_label_keeps_invariant)
next
  case (HideShow a)
  with completes inv show ?thesis by (auto intro: hideshow_keeps_invariant)
next
  case (SetVisible a v)
  with completes inv show ?thesis by (auto intro: set_visible_keeps_invariant)
next
  case (SetRunning a v)
  with no_direct have "v = False" by auto
  with SetRunning completes inv show ?thesis
    by (auto intro: set_running_False_keeps_invariant)
qed

lemma exec_all_keeps_invariant:
  assumes parent_method:
      "\<forall>p c w0. no_pending_state w0 \<longrightarrow> no_pending_state (snd (remove_child env p c w0))"
  shows "\<forall>a. SetRunning a True \<notin> set ops \<Longrightarrow> no_pending_state w \<Longrightarrow>
         exec_all env ops w = (Return (), w') \<Longrightarrow> no_pending_state w'"
proof (induction ops arbitrary: w)
  case Nil
  then show ?case by simp
next
  case (Cons operation ops)
  from Cons.prems(3) obtain x w1 where
    step: "exec env operation w = (Return x, w1)"
    and rest: "exec_all env ops w1 = (Return (), w')"
    by (auto elim: bindE_ReturnE)
  from Cons.prems(1) have nd: "\<forall>a. operation \<noteq> SetRunning a True"
    and nds: "\<forall>a. SetRunning a True \<notin> set ops" by auto
  from step have "exec env operation w = (Return (), w1)" by simp
  from exec_keeps_invariant[OF Cons.prems(2) parent_method nd this]
  have "no_pending_state w1" .
  from Cons.IH[OF nds this rest] show ?case .
qed

text \<open>
  C8, as the code has it. Loading the saved state is one-shot: when
  \<^verbatim>\<open>_load_saved_state\<close> returns, \<^verbatim>\<open>_saved_state\<close> is the empty string. The
  invariant that every running node has an empty \<^verbatim>\<open>_saved_state\<close> is kept by every
  sequence of operations in which each operation returns normally and none is the
  direct assignment \<^verbatim>\<open>running = True\<close>: if it holds before, it holds after, and then
  \<^verbatim>\<open>start()\<close> on a running node applies nothing and leaves the store as it is. The
  \<^verbatim>\<open>remove_child\<close> of the parent's class, which \<^verbatim>\<open>remove\<close> calls, is taken to keep
  the invariant.
\<close>

theorem saved_state_one_shot:
  assumes inv: "no_pending_state w"
    and parent_method:
      "\<forall>p c w0. no_pending_state w0 \<longrightarrow> no_pending_state (snd (remove_child env p c w0))"
    and no_direct: "\<forall>a. SetRunning a True \<notin> set ops"
    and completes: "exec_all env ops w = (Return (), w')"
  shows "(\<forall>a w0 w1. load_saved_state env a w0 = (Return (), w1) \<longrightarrow> saved_state (heap w1 a) = [])
       \<and> no_pending_state w'
       \<and> (\<forall>a. is_running (heap w' a) \<longrightarrow> start env a w' = (Return (), w'))"
proof -
  have inv': "no_pending_state w'"
    using exec_all_keeps_invariant[OF parent_method no_direct inv completes] .
  moreover have "\<forall>a w0 w1. load_saved_state env a w0 = (Return (), w1)
      \<longrightarrow> saved_state (heap w1 a) = []"
    using load_saved_state_post by blast
  moreover have "\<forall>a. is_running (heap w' a) \<longrightarrow> start env a w' = (Return (), w')"
    using start_again[OF inv'] by blast
  ultimately show ?thesis by blast
qed

theorem saved_state_one_shot_witness:
  "no_pending_state empty_world
   \<and> exec_all example_env [SetState 0 ''abc'', Start 0, Stop 0, SetState 0 ''xyz'', Start 0]
        empty_world
       = (Return (),
          empty_world\<lparr>heap := (heap empty_world)(0 :=
              Base_defaults\<lparr>is_running := True, name := ''xyz''\<rparr>),
            events := [RunningChanged 0 False True, StateApplied 0 True ''abc'',
                       RunningChanged 0 True False,
                       RunningChanged 0 False True, StateApplied 0 True ''xyz'']\<rparr>)
   \<and> no_pending_state (empty_world\<lparr>heap := (heap empty_world)(0 :=
              Base_defaults\<lparr>is_running := True, name := ''xyz''\<rparr>),
            events := [RunningChanged 0 False True, StateApplied 0 True ''abc'',
                       RunningChanged 0 True False,
                       RunningChanged 0 False True, StateApplied 0 True ''xyz'']\<rparr>)
   \<and> start example_env 0 (empty_world\<lparr>heap := (heap empty_world)(0 :=
              Base_defaults\<lparr>is_running := True, name := ''xyz''\<rparr>),
            events := [RunningChanged 0 False True, StateApplied 0 True ''abc'',
                       RunningChanged 0 True False,
                       RunningChanged 0 False True, StateApplied 0 True ''xyz'']\<rparr>)
       = (Return (),
          empty_world\<lparr>heap := (heap empty_world)(0 :=
              Base_defaults\<lparr>is_running := True, name := ''xyz''\<rparr>),
            events := [RunningChanged 0 False True, StateApplied 0 True ''abc'',
                       RunningChanged 0 True False,
                       RunningChanged 0 False True, StateApplied 0 True ''xyz'']\<rparr>)"
proof -
  let ?ops = "[SetState 0 ''abc'', Start 0, Stop 0, SetState 0 ''xyz'', Start 0]"
  let ?w' = "empty_world\<lparr>heap := (heap empty_world)(0 :=
              Base_defaults\<lparr>is_running := True, name := ''xyz''\<rparr>),
            events := [RunningChanged 0 False True, StateApplied 0 True ''abc'',
                       RunningChanged 0 True False,
                       RunningChanged 0 False True, StateApplied 0 True ''xyz'']\<rparr>"
  have h1: "no_pending_state empty_world"
    by (simp add: no_pending_state_def empty_world_def Base_defaults_def)
  have h2: "\<forall>p c w0. no_pending_state w0
      \<longrightarrow> no_pending_state (snd (remove_child example_env p c w0))"
    by (simp add: example_env_def Base_remove_child_def)
  have h3: "\<forall>a. SetRunning a True \<notin> set ?ops" by simp
  have h4: "exec_all example_env ?ops empty_world = (Return (), ?w')"
    by (simp add: setstate_def start_def stop_def set_running_def load_saved_state_def
        apply_state_def state_setter_def bindE_def lift_def on_node_def assign_def
        get_running_def example_env_def empty_world_def Base_defaults_def)
  have r: "is_running (heap ?w' 0)" by simp
  from saved_state_one_shot[OF h1 h2 h3 h4] r h1 h4 show ?thesis by blast
qed

text \<open>
  The claim as it was stated (after any public operation that completes, every running
  node has an empty \<^verbatim>\<open>_saved_state\<close>, and a following \<^verbatim>\<open>start()\<close> applies no
  state) fails for the assignment to the public trait \<^verbatim>\<open>running\<close>: on a stopped node
  that holds a saved state it returns normally, the node is running and the state is
  still pending, and a following \<^verbatim>\<open>start()\<close> applies it. It also fails after a
  \<^verbatim>\<open>start()\<close> that raised while the state was applied: \<^verbatim>\<open>running\<close> is set, the
  state is still saved, and an operation that completes afterwards leaves it so.
\<close>

theorem saved_state_pending_counterexample:
  "no_pending_state empty_world
   \<and> fst (exec_all example_env [SetState 0 ''abc'', SetRunning 0 True] empty_world) = Return ()
   \<and> is_running (heap (snd (exec_all example_env [SetState 0 ''abc'', SetRunning 0 True]
        empty_world)) 0)
   \<and> saved_state (heap (snd (exec_all example_env [SetState 0 ''abc'', SetRunning 0 True]
        empty_world)) 0) = ''Pabc''
   \<and> \<not> no_pending_state (snd (exec_all example_env [SetState 0 ''abc'', SetRunning 0 True]
        empty_world))
   \<and> events (snd (start example_env 0
        (snd (exec_all example_env [SetState 0 ''abc'', SetRunning 0 True] empty_world))))
       = [RunningChanged 0 False True, StateApplied 0 True ''abc'']
   \<and> fst (exec failing_env (SetState 0 ''abc'') empty_world) = Return ()
   \<and> fst (exec failing_env (Start 0) (snd (exec failing_env (SetState 0 ''abc'') empty_world)))
       = Raise (OtherError ''ValueError'')
   \<and> fst (exec failing_env (TnoGetLabel 0)
        (snd (exec failing_env (Start 0)
          (snd (exec failing_env (SetState 0 ''abc'') empty_world))))) = Return ()
   \<and> is_running (heap (snd (exec failing_env (TnoGetLabel 0)
        (snd (exec failing_env (Start 0)
          (snd (exec failing_env (SetState 0 ''abc'') empty_world)))))) 0)
   \<and> saved_state (heap (snd (exec failing_env (TnoGetLabel 0)
        (snd (exec failing_env (Start 0)
          (snd (exec failing_env (SetState 0 ''abc'') empty_world)))))) 0) = ''Pabc''"
proof -
  have w: "exec_all example_env [SetState 0 ''abc'', SetRunning 0 True] empty_world
      = (Return (),
         empty_world\<lparr>heap := (heap empty_world)(0 :=
             Base_defaults\<lparr>saved_state := ''Pabc'', is_running := True\<rparr>),
           events := [RunningChanged 0 False True]\<rparr>)"
    by (simp add: setstate_def set_running_def bindE_def lift_def on_node_def assign_def
        get_running_def example_env_def empty_world_def Base_defaults_def)
  have i: "no_pending_state empty_world"
    by (simp add: no_pending_state_def empty_world_def Base_defaults_def)
  have n: "\<not> no_pending_state (empty_world\<lparr>heap := (heap empty_world)(0 :=
             Base_defaults\<lparr>saved_state := ''Pabc'', is_running := True\<rparr>),
           events := [RunningChanged 0 False True]\<rparr>)"
    unfolding no_pending_state_def by (simp, rule exI[of _ 0]) simp
  have s: "events (snd (start example_env 0 (empty_world\<lparr>heap := (heap empty_world)(0 :=
             Base_defaults\<lparr>saved_state := ''Pabc'', is_running := True\<rparr>),
           events := [RunningChanged 0 False True]\<rparr>)))
       = [RunningChanged 0 False True, StateApplied 0 True ''abc'']"
    by (simp add: start_def set_running_def load_saved_state_def apply_state_def
        state_setter_def bindE_def lift_def on_node_def assign_def get_running_def
        example_env_def empty_world_def)
  have f1: "exec failing_env (SetState 0 ''abc'') empty_world
      = (Return (), empty_world\<lparr>heap := (heap empty_world)(0 :=
             Base_defaults\<lparr>saved_state := ''Pabc''\<rparr>)\<rparr>)"
    by (simp add: setstate_def bindE_def lift_def on_node_def assign_def
        get_running_def failing_env_def example_env_def empty_world_def Base_defaults_def)
  have f2: "exec failing_env (Start 0) (empty_world\<lparr>heap := (heap empty_world)(0 :=
             Base_defaults\<lparr>saved_state := ''Pabc''\<rparr>)\<rparr>)
      = (Raise (OtherError ''ValueError''),
         empty_world\<lparr>heap := (heap empty_world)(0 :=
             Base_defaults\<lparr>saved_state := ''Pabc'', is_running := True\<rparr>),
           events := [RunningChanged 0 False True, StateApplied 0 True ''abc'']\<rparr>)"
    by (simp add: start_def set_running_def load_saved_state_def apply_state_def
        state_setter_def bindE_def lift_def on_node_def assign_def get_running_def
        failing_env_def example_env_def empty_world_def Base_defaults_def)
  have f3: "exec failing_env (TnoGetLabel 0) (empty_world\<lparr>heap := (heap empty_world)(0 :=
             Base_defaults\<lparr>saved_state := ''Pabc'', is_running := True\<rparr>),
           events := [RunningChanged 0 False True, StateApplied 0 True ''abc'']\<rparr>)
      = (Return (),
         empty_world\<lparr>heap := (heap empty_world)(0 :=
             Base_defaults\<lparr>saved_state := ''Pabc'', is_running := True, name := ''Base''\<rparr>),
           events := [RunningChanged 0 False True, StateApplied 0 True ''abc'']\<rparr>)"
    by (simp add: tno_get_label_def bindE_def lift_def assign_def Let_def
        empty_world_def Base_defaults_def)
  from w i n s f1 f2 f3 show ?thesis by simp
qed

section \<open>Hiding and showing a node\<close>

lemma no_straddling_occurrence:
  assumes bl: "borderless old" and ne: "s \<noteq> []" and np: "\<not> prefix old s"
  shows "\<not> prefix old (s @ old)"
proof
  assume "prefix old (s @ old)"
  with np obtain us where us: "old = s @ us" "prefix us old"
    by (auto simp: prefix_append)
  from us(1) np have "us \<noteq> []" by auto
  let ?k = "length us"
  from us(1) have "length old = length s + ?k" by simp
  with ne \<open>us \<noteq> []\<close> have k: "0 < ?k" "?k < length old" by simp_all
  from us(2) have "take ?k old = us" by (auto simp: prefix_def)
  moreover from us(1) have "drop (length old - ?k) old = us"
    by (metis add_diff_cancel_right' append_eq_conv_conj length_append)
  ultimately show False using bl k unfolding borderless_def by metis
qed

lemma replace_from_self: "old \<noteq> [] \<Longrightarrow> replace_from old old new = new"
  by (cases old) simp_all

lemma replace_from_appended:
  assumes "borderless old" "old \<noteq> []" "\<not> str_contains s old"
  shows "replace_from (s @ old) old new = s @ new"
  using assms(3)
proof (induction s)
  case Nil
  with assms(2) show ?case by (simp add: replace_from_self)
next
  case (Cons c s)
  then have np: "\<not> prefix old (c # s)" and rest: "\<not> str_contains s old" by simp_all
  from no_straddling_occurrence[OF assms(1) _ np] have "\<not> prefix old ((c # s) @ old)" by simp
  with Cons.IH[OF rest] show ?case by simp
qed

lemma str_contains_appended: "sub \<noteq> [] \<Longrightarrow> str_contains (s @ sub) sub"
  by (induction s) (auto intro: list.exhaust[of sub])

lemma borderless_hidden_marker: "borderless hidden_marker"
  unfolding borderless_def
proof (intro allI impI)
  fix k assume "0 < k \<and> k < length hidden_marker"
  then have "k = 1 \<or> k = 2 \<or> k = 3 \<or> k = 4 \<or> k = 5 \<or> k = 6 \<or> k = 7 \<or> k = 8"
    by (auto simp: hidden_marker_def)
  then show "take k hidden_marker \<noteq> drop (length hidden_marker - k) hidden_marker"
    by (elim disjE) (simp_all add: hidden_marker_def)
qed

lemma hideshow_toggles: "visible (heap (hideshow a w) a) = (\<not> visible (heap w a))"
  by (simp add: hideshow_def set_visible_def visible_changed_def assign_def Let_def
      tno_get_label_def)

text \<open>
  C9, as the code has it. On a visible node with a non-empty name, setting \<^verbatim>\<open>visible\<close>
  to false appends \<^verbatim>\<open>' [Hidden]'\<close> to the name when the name does not contain it and
  leaves the name alone when it does; hiding again, by the assignment or by a second
  call of the handler, changes nothing. Setting \<^verbatim>\<open>visible\<close> back to true removes every
  occurrence of \<^verbatim>\<open>' [Hidden]'\<close> from the name: when the original name did not contain
  it, that restores the name, and the node is as it was before it was hidden.
  \<^verbatim>\<open>_hideshow\<close> toggles the visible flag.
\<close>

theorem hide_show_roundtrip:
  assumes named: "name (heap w a) \<noteq> []"
    and shown: "visible (heap w a)"
  shows "set_visible a False (set_visible a False w) = set_visible a False w
       \<and> visible_changed a False (set_visible a False w) = set_visible a False w
       \<and> name (heap (set_visible a True (set_visible a False w)) a)
           = str_replace (name (heap (set_visible a False w) a)) hidden_marker []
       \<and> (str_contains (name (heap w a)) hidden_marker \<longrightarrow>
            name (heap (set_visible a False w) a) = name (heap w a))
       \<and> (\<not> str_contains (name (heap w a)) hidden_marker \<longrightarrow>
            name (heap (set_visible a False w) a) = name (heap w a) @ hidden_marker
          \<and> set_visible a True (set_visible a False w) = w)
       \<and> visible (heap (hideshow a w) a) = (\<not> visible (heap w a))"
proof -
  let ?n = "heap w a"
  have hm: "hidden_marker \<noteq> []" by (simp add: hidden_marker_def)
  have toggle: "visible (heap (hideshow a w) a) = (\<not> visible (heap w a))"
    by (rule hideshow_toggles)
  have again: "set_visible a False (set_visible a False w) = set_visible a False w"
    using shown
    by (simp add: set_visible_def visible_changed_def assign_def Let_def tno_get_label_def)
  have shows_replace: "name (heap (set_visible a True (set_visible a False w)) a)
           = str_replace (name (heap (set_visible a False w) a)) hidden_marker []"
    using shown named hm
    by (simp add: set_visible_def visible_changed_def assign_def Let_def)
  show ?thesis
  proof (cases "str_contains (name ?n) hidden_marker")
    case True
    let ?h = "w\<lparr>heap := (heap w)(a := ?n\<lparr>visible := False\<rparr>)\<rparr>"
    have hide: "set_visible a False w = ?h"
      using named shown True by (simp add: set_visible_def visible_changed_def assign_def Let_def)
    have handler: "visible_changed a False ?h = ?h"
      using named True by (simp add: visible_changed_def Let_def)
    from hide handler again shows_replace toggle True show ?thesis by simp
  next
    case False
    let ?h = "w\<lparr>heap := (heap w)(a := ?n\<lparr>visible := False, name := name ?n @ hidden_marker\<rparr>)\<rparr>"
    have hide: "set_visible a False w = ?h"
      using named shown False by (simp add: set_visible_def visible_changed_def assign_def Let_def)
    have handler: "visible_changed a False ?h = ?h"
      using named str_contains_appended[OF hm, of "name ?n"]
      by (simp add: visible_changed_def Let_def)
    have "?n\<lparr>visible := True, name := name ?n\<rparr> = ?n" using shown by simp
    then have "w\<lparr>heap := (heap w)(a := ?n\<lparr>visible := True, name := name ?n\<rparr>)\<rparr> = w" by simp
    then have restore: "set_visible a True ?h = w"
      using named replace_from_appended[OF borderless_hidden_marker hm False, of "[]"]
      by (simp add: set_visible_def visible_changed_def assign_def Let_def str_replace_def hm)
    from hide handler again shows_replace toggle restore False show ?thesis by simp
  qed
qed

theorem hide_show_roundtrip_witness:
  "name (heap scene_world 0) \<noteq> [] \<and> visible (heap scene_world 0)
   \<and> \<not> str_contains (name (heap scene_world 0)) hidden_marker
   \<and> name (heap (set_visible 0 False scene_world) 0) = ''TVTK Scene 1 [Hidden]''
   \<and> set_visible 0 False (set_visible 0 False scene_world) = set_visible 0 False scene_world
   \<and> set_visible 0 True (set_visible 0 False scene_world) = scene_world
   \<and> \<not> visible (heap (hideshow 0 scene_world) 0)"
proof -
  have h1: "name (heap scene_world 0) \<noteq> []" and h2: "visible (heap scene_world 0)"
    and h3: "\<not> str_contains (name (heap scene_world 0)) hidden_marker"
    and nm: "name (heap scene_world 0) = ''TVTK Scene 1''"
    by (simp_all add: scene_world_def hidden_marker_def)
  from hide_show_roundtrip[OF h1 h2] h1 h2 h3 nm show ?thesis
    by (simp add: hidden_marker_def)
qed

text \<open>
  The claim as it was stated (the original name restored for every non-empty name)
  fails on a name that contains \<^verbatim>\<open>' [Hidden]'\<close> already: hiding leaves
  \<^verbatim>\<open>'a [Hidden]'\<close> as it is and showing strips it to \<^verbatim>\<open>'a'\<close>.
\<close>

theorem hide_show_counterexample:
  "name (heap (empty_world\<lparr>heap := (heap empty_world)(0 :=
       Base_defaults\<lparr>name := ''a [Hidden]''\<rparr>)\<rparr>) 0) \<noteq> []
   \<and> visible (heap (empty_world\<lparr>heap := (heap empty_world)(0 :=
       Base_defaults\<lparr>name := ''a [Hidden]''\<rparr>)\<rparr>) 0)
   \<and> name (heap (set_visible 0 False
       (empty_world\<lparr>heap := (heap empty_world)(0 :=
          Base_defaults\<lparr>name := ''a [Hidden]''\<rparr>)\<rparr>)) 0) = ''a [Hidden]''
   \<and> name (heap (set_visible 0 True (set_visible 0 False
       (empty_world\<lparr>heap := (heap empty_world)(0 :=
          Base_defaults\<lparr>name := ''a [Hidden]''\<rparr>)\<rparr>))) 0) = ''a''
   \<and> name (heap (set_visible 0 True (set_visible 0 False
       (empty_world\<lparr>heap := (heap empty_world)(0 :=
          Base_defaults\<lparr>name := ''a [Hidden]''\<rparr>)\<rparr>))) 0)
     \<noteq> name (heap (empty_world\<lparr>heap := (heap empty_world)(0 :=
          Base_defaults\<lparr>name := ''a [Hidden]''\<rparr>)\<rparr>) 0)"
  by (simp add: set_visible_def visible_changed_def assign_def Let_def str_replace_def
      hidden_marker_def empty_world_def Base_defaults_def)

section \<open>figure.py: the current figure\<close>

lemma deref_set_tvtk_ReturnD:
  assumes "deref fig (\<lambda>f. set_tvtk f g) w = (Return x, w')"
  shows "fig \<noteq> None \<and> current_scene w' = current_scene w"
  using assms by (auto simp: deref_def set_tvtk_def assign_def split: option.splits)

lemma figure_returns_current:
  assumes "figure env nm bg fg w = (Return r, w')"
  shows "r = current_scene w' \<and> r \<noteq> None"
  using assms unfolding figure_def Let_def
  by (elim bindE_ReturnE) (auto simp: lift_def dest!: deref_set_tvtk_ReturnD)

text \<open>
  C6. \<^verbatim>\<open>gcf()\<close> returns the engine's current scene when there is one, leaving the
  store as \<^verbatim>\<open>get_engine()\<close> left it. When there is none it is the call \<^verbatim>\<open>figure()\<close>,
  which asks the engine for a new scene and, when the engine then has a current scene
  with a TVTK scene, sets that scene's colours from the preferences and returns it.
  Whatever \<^verbatim>\<open>gcf()\<close> returns is the current scene of the engine at that moment, and it
  is never \<^verbatim>\<open>None\<close>.
\<close>

theorem gcf_never_None:
  "(\<forall>w1 sc. get_engine env w = (Return (), w1) \<and> current_scene w1 = Some sc
        \<longrightarrow> gcf env w = (Return (Some sc), w1))
 \<and> (\<forall>w1. get_engine env w = (Return (), w1) \<and> current_scene w1 = None
        \<longrightarrow> gcf env w = figure env NoName None None w1)
 \<and> (\<forall>w1 w2 w3 w4 f t.
        get_engine env w = (Return (), w1) \<and> current_scene w1 = None
        \<and> get_engine env w1 = (Return (), w2) \<and> new_scene env w2 = (Return (), w3)
        \<and> view env 40 50 w3 = (Return (), w4)
        \<and> current_scene w4 = Some f \<and> scene (heap w4 f) = Some t
        \<longrightarrow> gcf env w = (Return (Some f),
               w4\<lparr>heap := (heap w4)(f := (heap w4 f)\<lparr>scene :=
                    Some (t\<lparr>background := background_color env,
                            foreground := foreground_color env\<rparr>)\<rparr>)\<rparr>))
 \<and> (\<forall>r w'. gcf env w = (Return r, w') \<longrightarrow> r = current_scene w' \<and> r \<noteq> None)
 \<and> fst (gcf env w) \<noteq> Return None"
proof -
  have a: "\<forall>w1 sc. get_engine env w = (Return (), w1) \<and> current_scene w1 = Some sc
        \<longrightarrow> gcf env w = (Return (Some sc), w1)"
    by (simp add: gcf_def bindE_def)
  have b: "\<forall>w1. get_engine env w = (Return (), w1) \<and> current_scene w1 = None
        \<longrightarrow> gcf env w = figure env NoName None None w1"
    by (simp add: gcf_def bindE_def)
  have c: "\<forall>w1 w2 w3 w4 f t.
        get_engine env w = (Return (), w1) \<and> current_scene w1 = None
        \<and> get_engine env w1 = (Return (), w2) \<and> new_scene env w2 = (Return (), w3)
        \<and> view env 40 50 w3 = (Return (), w4)
        \<and> current_scene w4 = Some f \<and> scene (heap w4 f) = Some t
        \<longrightarrow> gcf env w = (Return (Some f),
               w4\<lparr>heap := (heap w4)(f := (heap w4 f)\<lparr>scene :=
                    Some (t\<lparr>background := background_color env,
                            foreground := foreground_color env\<rparr>)\<rparr>)\<rparr>)"
    by (simp add: gcf_def figure_def bindE_def deref_def set_tvtk_def assign_def lift_def)
  have d: "r = current_scene w' \<and> r \<noteq> None" if "gcf env w = (Return r, w')" for r w'
  proof -
    from that obtain w1 where w1: "get_engine env w = (Return (), w1)"
      and rest: "(case current_scene w1 of
          None \<Rightarrow> figure env NoName None None w1
        | Some sc \<Rightarrow> (Return (Some sc), w1)) = (Return r, w')"
      by (auto simp: gcf_def bindE_def split: prod.splits result.splits)
    show ?thesis
    proof (cases "current_scene w1")
      case None
      with rest show ?thesis by (simp add: figure_returns_current)
    next
      case (Some sc)
      with rest have "r = Some sc" "w' = w1" by simp_all
      with Some show ?thesis by simp
    qed
  qed
  have e: "fst (gcf env w) \<noteq> Return None"
    using d[of None "snd (gcf env w)"] by (cases "gcf env w") auto
  from a b c d e show ?thesis by blast
qed

theorem gcf_never_None_witness:
  "get_engine example_env scene_world = (Return (), scene_world)
   \<and> current_scene scene_world = Some 0
   \<and> gcf example_env scene_world = (Return (Some 0), scene_world)
   \<and> get_engine example_env empty_world = (Return (), empty_world)
   \<and> current_scene empty_world = None
   \<and> new_scene example_env empty_world = (Return (), snd (new_scene example_env empty_world))
   \<and> current_scene (snd (new_scene example_env empty_world)) = Some 0
   \<and> gcf example_env empty_world = (Return (Some 0),
        (snd (new_scene example_env empty_world))\<lparr>heap :=
           (heap (snd (new_scene example_env empty_world)))(0 :=
              (heap (snd (new_scene example_env empty_world)) 0)\<lparr>scene :=
                 Some \<lparr>background = (1 / 2, 1 / 2, 1 / 2), foreground = (0, 0, 0),
                       disable_render = False\<rparr>\<rparr>)\<rparr>)
   \<and> fst (gcf example_env empty_world) \<noteq> Return None"
proof -
  let ?w3 = "snd (new_scene example_env empty_world)"
  have g1: "get_engine example_env scene_world = (Return (), scene_world)"
    and g2: "get_engine example_env empty_world = (Return (), empty_world)"
    and n: "new_scene example_env empty_world = (Return (), ?w3)"
    and v: "view example_env 40 50 ?w3 = (Return (), ?w3)"
    by (simp_all add: example_env_def)
  have c1: "current_scene scene_world = Some 0" by (simp add: scene_world_def)
  have c2: "current_scene empty_world = None" by (simp add: empty_world_def)
  have c3: "current_scene ?w3 = Some 0"
    and t: "scene (heap ?w3 0) = Some \<lparr>background = (0, 0, 0), foreground = (1, 1, 1),
                                        disable_render = False\<rparr>"
    by (simp_all add: example_env_def empty_world_def)
  have col: "background_color example_env = (1 / 2, 1 / 2, 1 / 2)"
    "foreground_color example_env = (0, 0, 0)"
    by (simp_all add: example_env_def)
  from gcf_never_None[of example_env scene_world] g1 c1
  have r1: "gcf example_env scene_world = (Return (Some 0), scene_world)" by blast
  from gcf_never_None[of example_env empty_world] g2 c2 n v c3 t
  have "gcf example_env empty_world = (Return (Some 0),
        ?w3\<lparr>heap := (heap ?w3)(0 := (heap ?w3 0)\<lparr>scene :=
             Some (\<lparr>background = (0, 0, 0), foreground = (1, 1, 1), disable_render = False\<rparr>
                     \<lparr>background := background_color example_env,
                      foreground := foreground_color example_env\<rparr>)\<rparr>)\<rparr>)"
    by blast
  then have r2: "gcf example_env empty_world = (Return (Some 0),
        ?w3\<lparr>heap := (heap ?w3)(0 := (heap ?w3 0)\<lparr>scene :=
                 Some \<lparr>background = (1 / 2, 1 / 2, 1 / 2), foreground = (0, 0, 0),
                       disable_render = False\<rparr>\<rparr>)\<rparr>)"
    by (simp add: col)
  from gcf_never_None[of example_env empty_world]
  have r3: "fst (gcf example_env empty_world) \<noteq> Return None" by blast
  from g1 g2 n c1 c2 c3 r1 r2 r3 show ?thesis by simp
qed

lemma clf_try_after_gcf:
  assumes "gcf env w = (Return (Some a), w1)"
  shows "clf_try env w =
     bindE (set_tvtk a (\<lambda>t. t\<lparr>disable_render := True\<rparr>)) (\<lambda>_.
     bindE (clear_children a) (\<lambda>_.
     set_tvtk a (\<lambda>t. t\<lparr>disable_render := False\<rparr>))) w1"
proof -
  have d: "deref (Some a) f = f a" for f :: "addr \<Rightarrow> 'a world \<Rightarrow> unit result \<times> 'a world"
    by (rule ext) (simp add: deref_def)
  have b: "bindE (gcf env) f w = f (Some a) w1"
    for f :: "addr option \<Rightarrow> 'a world \<Rightarrow> unit result \<times> 'a world"
    using assms by (simp add: bindE_def)
  show ?thesis by (simp only: clf_try_def b d)
qed

lemma clf_try_success:
  assumes "gcf env w = (Return (Some a), w1)" "scene (heap w1 a) = Some t"
    "children (heap w1 a) = Some cs"
  shows "clf_try env w = (Return (),
     w1\<lparr>heap := (heap w1)(a := (heap w1 a)\<lparr>children := Some [],
                                             scene := Some (t\<lparr>disable_render := False\<rparr>)\<rparr>)\<rparr>)"
  using assms
  by (simp add: clf_try_def bindE_def deref_def set_tvtk_def clear_children_def assign_def)

text \<open>
  C7. \<^verbatim>\<open>clf()\<close> never ends with an \<^verbatim>\<open>AttributeError\<close>: one raised in the body is
  caught, and \<^verbatim>\<open>clf()\<close> returns normally with the store as the body left it; any
  other exception passes through. Once \<^verbatim>\<open>gcf()\<close> has returned a scene, the body is
  the three statements in their order: set \<^verbatim>\<open>disable_render\<close>, replace the children
  list by the empty list, clear \<^verbatim>\<open>disable_render\<close>. On a scene without a TVTK scene
  nothing is written; on a scene with a TVTK scene and no children list the clear
  fails with rendering disabled, and the store keeps \<^verbatim>\<open>disable_render\<close> set; on a
  scene with both, the children list is replaced by the empty list in the store where
  rendering is disabled, and \<^verbatim>\<open>disable_render\<close> is cleared afterwards.
\<close>

theorem clf_clears_and_swallows:
  "fst (clf env w) \<noteq> Raise AttributeError
 \<and> (\<forall>w'. clf_try env w = (Raise AttributeError, w') \<longrightarrow> clf env w = (Return (), w'))
 \<and> (\<forall>e w'. clf_try env w = (Raise e, w') \<and> e \<noteq> AttributeError
       \<longrightarrow> clf env w = (Raise e, w'))
 \<and> (\<forall>e w1. gcf env w = (Raise e, w1) \<longrightarrow> clf_try env w = (Raise e, w1))
 \<and> (\<forall>a w1. gcf env w = (Return (Some a), w1)
       \<longrightarrow> clf_try env w =
             bindE (set_tvtk a (\<lambda>t. t\<lparr>disable_render := True\<rparr>)) (\<lambda>_.
             bindE (clear_children a) (\<lambda>_.
             set_tvtk a (\<lambda>t. t\<lparr>disable_render := False\<rparr>))) w1)
 \<and> (\<forall>a w1. gcf env w = (Return (Some a), w1) \<and> scene (heap w1 a) = None
       \<longrightarrow> clf_try env w = (Raise AttributeError, w1) \<and> clf env w = (Return (), w1))
 \<and> (\<forall>a w1 t. gcf env w = (Return (Some a), w1) \<and> scene (heap w1 a) = Some t
        \<and> children (heap w1 a) = None
       \<longrightarrow> clf_try env w = (Raise AttributeError,
               w1\<lparr>heap := (heap w1)(a := (heap w1 a)\<lparr>scene :=
                               Some (t\<lparr>disable_render := True\<rparr>)\<rparr>)\<rparr>)
         \<and> clf env w = (Return (),
               w1\<lparr>heap := (heap w1)(a := (heap w1 a)\<lparr>scene :=
                               Some (t\<lparr>disable_render := True\<rparr>)\<rparr>)\<rparr>))
 \<and> (\<forall>a w1 t cs. gcf env w = (Return (Some a), w1) \<and> scene (heap w1 a) = Some t
        \<and> children (heap w1 a) = Some cs
      \<longrightarrow> set_tvtk a (\<lambda>t. t\<lparr>disable_render := True\<rparr>) w1
            = (Return (), w1\<lparr>heap := (heap w1)(a := (heap w1 a)\<lparr>scene :=
                               Some (t\<lparr>disable_render := True\<rparr>)\<rparr>)\<rparr>)
        \<and> clear_children a (w1\<lparr>heap := (heap w1)(a := (heap w1 a)\<lparr>scene :=
                               Some (t\<lparr>disable_render := True\<rparr>)\<rparr>)\<rparr>)
            = (Return (), w1\<lparr>heap := (heap w1)(a := (heap w1 a)\<lparr>scene :=
                               Some (t\<lparr>disable_render := True\<rparr>), children := Some []\<rparr>)\<rparr>)
        \<and> clf env w = (Return (),
             w1\<lparr>heap := (heap w1)(a := (heap w1 a)\<lparr>children := Some [],
                               scene := Some (t\<lparr>disable_render := False\<rparr>)\<rparr>)\<rparr>))"
proof -
  have 1: "fst (clf env w) \<noteq> Raise AttributeError"
    by (auto simp: clf_def split: prod.splits result.splits error.splits)
  have 2: "\<forall>w'. clf_try env w = (Raise AttributeError, w') \<longrightarrow> clf env w = (Return (), w')"
    by (simp add: clf_def)
  have 3: "\<forall>e w'. clf_try env w = (Raise e, w') \<and> e \<noteq> AttributeError
       \<longrightarrow> clf env w = (Raise e, w')"
    by (auto simp: clf_def split: error.splits)
  have 4: "\<forall>e w1. gcf env w = (Raise e, w1) \<longrightarrow> clf_try env w = (Raise e, w1)"
    by (simp add: clf_try_def bindE_def)
  have 5: "\<forall>a w1. gcf env w = (Return (Some a), w1)
       \<longrightarrow> clf_try env w =
             bindE (set_tvtk a (\<lambda>t. t\<lparr>disable_render := True\<rparr>)) (\<lambda>_.
             bindE (clear_children a) (\<lambda>_.
             set_tvtk a (\<lambda>t. t\<lparr>disable_render := False\<rparr>))) w1"
    by (simp add: clf_try_after_gcf)
  have 6: "\<forall>a w1. gcf env w = (Return (Some a), w1) \<and> scene (heap w1 a) = None
       \<longrightarrow> clf_try env w = (Raise AttributeError, w1) \<and> clf env w = (Return (), w1)"
    by (simp add: clf_def clf_try_after_gcf bindE_def set_tvtk_def)
  have 7: "\<forall>a w1 t. gcf env w = (Return (Some a), w1) \<and> scene (heap w1 a) = Some t
        \<and> children (heap w1 a) = None
       \<longrightarrow> clf_try env w = (Raise AttributeError,
               w1\<lparr>heap := (heap w1)(a := (heap w1 a)\<lparr>scene :=
                               Some (t\<lparr>disable_render := True\<rparr>)\<rparr>)\<rparr>)
         \<and> clf env w = (Return (),
               w1\<lparr>heap := (heap w1)(a := (heap w1 a)\<lparr>scene :=
                               Some (t\<lparr>disable_render := True\<rparr>)\<rparr>)\<rparr>)"
    by (simp add: clf_def clf_try_after_gcf bindE_def set_tvtk_def clear_children_def
        assign_def)
  have 8: "\<forall>a w1 t cs. gcf env w = (Return (Some a), w1) \<and> scene (heap w1 a) = Some t
        \<and> children (heap w1 a) = Some cs
      \<longrightarrow> set_tvtk a (\<lambda>t. t\<lparr>disable_render := True\<rparr>) w1
            = (Return (), w1\<lparr>heap := (heap w1)(a := (heap w1 a)\<lparr>scene :=
                               Some (t\<lparr>disable_render := True\<rparr>)\<rparr>)\<rparr>)
        \<and> clear_children a (w1\<lparr>heap := (heap w1)(a := (heap w1 a)\<lparr>scene :=
                               Some (t\<lparr>disable_render := True\<rparr>)\<rparr>)\<rparr>)
            = (Return (), w1\<lparr>heap := (heap w1)(a := (heap w1 a)\<lparr>scene :=
                               Some (t\<lparr>disable_render := True\<rparr>), children := Some []\<rparr>)\<rparr>)
        \<and> clf env w = (Return (),
             w1\<lparr>heap := (heap w1)(a := (heap w1 a)\<lparr>children := Some [],
                               scene := Some (t\<lparr>disable_render := False\<rparr>)\<rparr>)\<rparr>)"
    by (auto simp: clf_def clf_try_success set_tvtk_def clear_children_def assign_def)
  from 1 2 3 4 5 6 7 8 show ?thesis by blast
qed

theorem clf_clears_and_swallows_witness:
  "gcf example_env scene_world = (Return (Some 0), scene_world)
   \<and> children (heap scene_world 0) = Some [1, 2]
   \<and> clf example_env scene_world
       = (Return (), scene_world\<lparr>heap := (heap scene_world)(0 :=
            (heap scene_world 0)\<lparr>children := Some []\<rparr>)\<rparr>)
   \<and> children (heap childless_world 0) = None
   \<and> clf example_env childless_world
       = (Return (), childless_world\<lparr>heap := (heap childless_world)(0 :=
            (heap childless_world 0)\<lparr>scene :=
               Some \<lparr>background = (0, 0, 0), foreground = (1, 1, 1),
                     disable_render = True\<rparr>\<rparr>)\<rparr>)
   \<and> clf_try (example_env\<lparr>new_scene := (\<lambda>w. (Return (), w))\<rparr>) empty_world
       = (Raise AttributeError, empty_world)
   \<and> clf (example_env\<lparr>new_scene := (\<lambda>w. (Return (), w))\<rparr>) empty_world
       = (Return (), empty_world)"
proof -
  let ?t = "\<lparr>background = (0, 0, 0), foreground = (1, 1, 1), disable_render = False\<rparr>"
  have g: "gcf example_env scene_world = (Return (Some 0), scene_world)"
    by (simp add: gcf_def bindE_def example_env_def scene_world_def)
  have s: "scene (heap scene_world 0) = Some ?t"
    and c: "children (heap scene_world 0) = Some [1, 2]"
    by (simp_all add: scene_world_def)
  from clf_clears_and_swallows[of example_env scene_world] g s c
  have "clf example_env scene_world = (Return (),
     scene_world\<lparr>heap := (heap scene_world)(0 := (heap scene_world 0)\<lparr>children := Some [],
                               scene := Some (?t\<lparr>disable_render := False\<rparr>)\<rparr>)\<rparr>)"
    by blast
  moreover have "(heap scene_world 0)\<lparr>children := Some [],
                     scene := Some (?t\<lparr>disable_render := False\<rparr>)\<rparr>
      = (heap scene_world 0)\<lparr>children := Some []\<rparr>"
    by (simp add: scene_world_def)
  ultimately have r1: "clf example_env scene_world
       = (Return (), scene_world\<lparr>heap := (heap scene_world)(0 :=
            (heap scene_world 0)\<lparr>children := Some []\<rparr>)\<rparr>)"
    by simp
  have g': "gcf example_env childless_world = (Return (Some 0), childless_world)"
    by (simp add: gcf_def bindE_def example_env_def childless_world_def)
  have s': "scene (heap childless_world 0) = Some ?t"
    and c': "children (heap childless_world 0) = None"
    by (simp_all add: childless_world_def)
  from clf_clears_and_swallows[of example_env childless_world] g' s' c'
  have "clf example_env childless_world = (Return (),
     childless_world\<lparr>heap := (heap childless_world)(0 := (heap childless_world 0)\<lparr>scene :=
         Some (?t\<lparr>disable_render := True\<rparr>)\<rparr>)\<rparr>)"
    by blast
  then have r3: "clf example_env childless_world
       = (Return (), childless_world\<lparr>heap := (heap childless_world)(0 :=
            (heap childless_world 0)\<lparr>scene :=
               Some \<lparr>background = (0, 0, 0), foreground = (1, 1, 1),
                     disable_render = True\<rparr>\<rparr>)\<rparr>)"
    by simp
  have t: "clf_try (example_env\<lparr>new_scene := (\<lambda>w. (Return (), w))\<rparr>) empty_world
       = (Raise AttributeError, empty_world)"
    by (simp add: clf_try_def gcf_def figure_def bindE_def deref_def lift_def
        example_env_def empty_world_def)
  from clf_clears_and_swallows[of "example_env\<lparr>new_scene := (\<lambda>w. (Return (), w))\<rparr>" empty_world] t
  have r2: "clf (example_env\<lparr>new_scene := (\<lambda>w. (Return (), w))\<rparr>) empty_world
       = (Return (), empty_world)"
    by blast
  from g c r1 c' r3 t r2 show ?thesis by simp
qed

end
